theory Spec2Isabelle
  imports Complex_Main
begin

section \<open>JavaScript values the swap handlers compute with\<close>

text \<open>
  A JavaScript number as \<open>Number.parseFloat\<close> can return it: not-a-number, a finite
  value or an infinity. Every finite double is a rational, so \<open>Finite\<close> ranges over a
  superset of the finite doubles; signed zero is not told apart.
\<close>

datatype jsnum = NaN | Finite rat | PosInfinity | NegInfinity

text \<open>Truthiness of a number: \<open>NaN\<close> and zero are falsy.\<close>

fun truthy_num :: "jsnum \<Rightarrow> bool" where
  "truthy_num NaN = False"
| "truthy_num (Finite r) = (r \<noteq> 0)"
| "truthy_num PosInfinity = True"
| "truthy_num NegInfinity = True"

text \<open>The operator \<open>a || b\<close> on numbers.\<close>

definition or_num :: "jsnum \<Rightarrow> jsnum \<Rightarrow> jsnum" where
  "or_num a b = (if truthy_num a then a else b)"

text \<open>The comparison \<open>a > b\<close> on numbers; every comparison with \<open>NaN\<close> is false.\<close>

fun gt_num :: "jsnum \<Rightarrow> jsnum \<Rightarrow> bool" where
  "gt_num NaN b = False"
| "gt_num a NaN = False"
| "gt_num (Finite a) (Finite b) = (b < a)"
| "gt_num (Finite a) PosInfinity = False"
| "gt_num (Finite a) NegInfinity = True"
| "gt_num PosInfinity PosInfinity = False"
| "gt_num PosInfinity b = True"
| "gt_num NegInfinity b = False"

text \<open>
  A value of type \<open>string | undefined\<close>: \<open>None\<close> is \<open>undefined\<close>. It is truthy when
  it is a non-empty string.
\<close>

fun truthy_str :: "string option \<Rightarrow> bool" where
  "truthy_str None = False"
| "truthy_str (Some s) = (s \<noteq> [])"

text \<open>A value inside a template literal: \<open>undefined\<close> prints as the word.\<close>

fun template_str :: "string option \<Rightarrow> string" where
  "template_str None = ''undefined''"
| "template_str (Some s) = s"

text \<open>\<open>String.prototype.startsWith\<close>.\<close>

definition startsWith :: "string \<Rightarrow> string \<Rightarrow> bool" where
  "startsWith s p = (take (length p) s = p)"

text \<open>\<open>String.prototype.split\<close> with a one-character separator.\<close>

fun split_on :: "char \<Rightarrow> string \<Rightarrow> string list" where
  "split_on c [] = [[]]"
| "split_on c (x # xs) =
     (if x = c then [] # split_on c xs
      else (case split_on c xs of
              [] \<Rightarrow> [[x]]
            | w # ws \<Rightarrow> (x # w) # ws))"

text \<open>
  JSON data. An object that the handlers edit (the quote, the response body) is a map
  from property names to values; an absent property reads as \<open>undefined\<close>.
\<close>

datatype json =
    JNull
  | JBool bool
  | JNumber jsnum
  | JString string
  | JArray "json list"
  | JObject "(string \<times> json) list"

type_synonym jsobject = "string \<rightharpoonup> json"

fun truthy_json :: "json \<Rightarrow> bool" where
  "truthy_json JNull = False"
| "truthy_json (JBool b) = b"
| "truthy_json (JNumber n) = truthy_num n"
| "truthy_json (JString s) = (s \<noteq> [])"
| "truthy_json (JArray xs) = True"
| "truthy_json (JObject kvs) = True"

fun truthy_prop :: "json option \<Rightarrow> bool" where
  "truthy_prop None = False"
| "truthy_prop (Some v) = truthy_json v"

text \<open>lodash \<open>_.omit(obj, ...keys)\<close> and \<open>_.pick(obj, ...keys)\<close>.\<close>

definition lodash_omit :: "jsobject \<Rightarrow> string list \<Rightarrow> jsobject" where
  "lodash_omit obj ks = (\<lambda>k. if k \<in> set ks then None else obj k)"

definition lodash_pick :: "jsobject \<Rightarrow> string list \<Rightarrow> jsobject" where
  "lodash_pick obj ks = (\<lambda>k. if k \<in> set ks then obj k else None)"

text \<open>
  The property \<open>v.k\<close> of a value that is neither \<open>null\<close> nor \<open>undefined\<close>: an
  object has the properties it lists, and the other values of JSON have none of the names
  the handlers read.
\<close>

fun property :: "json \<Rightarrow> string \<Rightarrow> json option" where
  "property (JObject kvs) k = map_of kvs k"
| "property v k = None"

text \<open>
  \<open>new BigNumber(v)\<close>: the handlers only build these objects and test them for
  \<open>undefined\<close>, so an object is kept as the constructor's argument, a text or
  \<open>undefined\<close>. The constructor of the library returns its not-a-number value for a
  malformed text; it does not throw.
\<close>

datatype BigNumber = BigNumber "string option"

text \<open>
  \<open>req.query.x === undefined ? undefined : new BigNumber(req.query.x as string)\<close>.
\<close>

definition optionalBigNumber :: "string option \<Rightarrow> BigNumber option" where
  "optionalBigNumber v = (if v = None then None else Some (BigNumber v))"


section \<open>Errors\<close>

datatype ValidationErrorCodes = RequiredField | InvalidAddress | ValueOutOfRange | UnsupportedOption

datatype ValidationErrorReasons = PercentageOutOfRange | ArgumentNotYetSupported

text \<open>
  The \<open>reason\<close> of a validation error is a member of \<open>ValidationErrorReasons\<close> or a
  text built by the handler.
\<close>

datatype reason_text = ReasonEnum ValidationErrorReasons | ReasonText string

record ValidationErrorItem =
  field :: string
  code :: ValidationErrorCodes
  reason :: reason_text

text \<open>
  A value thrown by a collaborator (schema validation, token lookup, the swap service), as
  far as the handlers look at it: the verdicts of \<open>isAPIError\<close> and \<open>isRevertError\<close>
  (middleware/error_handling) on it, and its message.
\<close>

record exn =
  isAPIError :: bool
  isRevertError :: bool
  message :: string

text \<open>
  What a handler throws: a collaborator's value passed on as it is (\<open>Rethrown\<close>), an
  error object the handler constructs itself, or the \<open>TypeError\<close> of the run time when
  the handler reads a property of \<open>undefined\<close> or \<open>null\<close> or calls what is not a
  function.
\<close>

datatype api_error =
    Rethrown exn
  | ValidationError "ValidationErrorItem list"
  | RevertAPIError exn
  | InternalServerError string
  | JsTypeError


section \<open>Requests, canonical parameters and collaborators\<close>

datatype endpoint = Price | Quote

datatype MarketOperation = Sell | Buy

text \<open>
  An express request: \<open>req.query\<close> as a map of raw strings (the handlers read every
  parameter \<open>as string\<close>), and \<open>req.header(name)\<close> as the lookup it performs.
\<close>

record request =
  query :: "string \<rightharpoonup> string"
  header :: "string \<rightharpoonup> string"

record 'b http_response =
  status :: nat
  body :: "'b option"

definition HttpStatus_OK :: nat where
  "HttpStatus_OK = 200"

definition HttpStatus_UNAUTHORIZED :: nat where
  "HttpStatus_UNAUTHORIZED = 401"

record RfqtRequestOpts =
  intentOnFilling :: bool
  isIndicative :: bool
  nativeExclusivelyRFQT :: bool

record AffiliateFee =
  recipient :: string
  sellTokenPercentageFee :: jsnum
  buyTokenPercentageFee :: jsnum

text \<open>\<open>GetSwapQuoteRequestParams\<close>: the canonical request the parser returns.\<close>

record GetSwapQuoteRequestParams =
  takerAddress :: "string option"
  sellToken :: "string option"
  buyToken :: "string option"
  sellAmount :: "BigNumber option"
  buyAmount :: "BigNumber option"
  slippagePercentage :: jsnum
  gasPrice :: "BigNumber option"
  excludedSources :: "string list"
  includedSources :: "string list"
  affiliateAddress :: "string option"
  rfqt :: "RfqtRequestOpts option"
  skipValidation :: bool
  apiKey :: "string option"
  affiliateFee :: AffiliateFee
  includePriceComparisons :: bool
  shouldSellEntireBalance :: bool

text \<open>
  \<open>CalculateSwapQuoteParams\<close>: the argument of the swap service. The fields carry the
  prefix \<open>cp_\<close> to keep them apart from the canonical request's.
\<close>

record CalculateSwapQuoteParams =
  cp_buyTokenAddress :: string
  cp_sellTokenAddress :: string
  cp_buyAmount :: "BigNumber option"
  cp_sellAmount :: "BigNumber option"
  cp_from :: "string option"
  cp_isETHSell :: bool
  cp_isETHBuy :: bool
  cp_slippagePercentage :: jsnum
  cp_gasPrice :: "BigNumber option"
  cp_excludedSources :: "string list"
  cp_includedSources :: "string list"
  cp_affiliateAddress :: "string option"
  cp_apiKey :: "string option"
  cp_rfqt :: "RfqtRequestOpts option"
  cp_skipValidation :: bool
  cp_affiliateFee :: AffiliateFee
  cp_isMetaTransaction :: bool
  cp_includePriceComparisons :: bool
  cp_shouldSellEntireBalance :: bool

text \<open>The argument of \<open>SwapService.calculateMarketDepthAsync\<close>.\<close>

record MarketDepthParams =
  md_buyToken :: string
  md_sellToken :: string
  md_sellAmount :: BigNumber
  md_numSamples :: jsnum
  md_sampleDistributionBase :: jsnum
  md_excludedSources :: "string list"
  md_includedSources :: "string list"

text \<open>
  Everything the handlers import: the configuration, the constants of the quoting
  library, the built-in number parsers and the collaborating functions. None of them is
  defined in swap\_handlers.ts, so each is a parameter. The validation, the parsers of
  source lists, the token lookups and the service methods can throw: they return \<open>Inl\<close>
  of the thrown value, and \<open>validateSchema\<close> returns the value it throws, if any. The
  predicates on tokens, \<open>determineExcludedSources\<close> and the price-comparison helpers
  are taken to return.

  \<open>parseRequestForExcludedSources\<close> takes the fields of its request object in the
  order excludedSources, includedSources, intentOnFilling, takerAddress, apiKey, then the
  whitelist and the endpoint, and returns excludedSources, includedSources and
  nativeExclusivelyRFQT.
\<close>

record env =
  CHAIN_ID :: nat
  RFQT_API_KEY_WHITELIST :: "string list"
  PLP_API_KEY_WHITELIST :: "string list"
  RFQT_REGISTRY_PASSWORDS :: "string list"
  MARKET_DEPTH_MAX_SAMPLES :: jsnum
  MARKET_DEPTH_DEFAULT_DISTRIBUTION :: jsnum
  InsufficientAssetLiquidity :: string
  AssetUnavailable :: string
  parseFloat :: "string \<Rightarrow> jsnum"
  parseInt :: "string \<Rightarrow> jsnum"
  validateSchema :: "(string \<rightharpoonup> string) \<Rightarrow> exn option"
  parseRequestForExcludedSources ::
    "string option \<Rightarrow> string option \<Rightarrow> string option \<Rightarrow> string option \<Rightarrow> string option
      \<Rightarrow> string list \<Rightarrow> endpoint \<Rightarrow> exn + (string list \<times> string list \<times> bool)"
  parseStringArrForERC20BridgeSources :: "string list \<Rightarrow> exn + string list"
  determineExcludedSources :: "string list \<Rightarrow> string option \<Rightarrow> string list \<Rightarrow> string list"
  isETHSymbolOrAddress :: "string option \<Rightarrow> bool"
  isWETHSymbolOrAddress :: "string option \<Rightarrow> nat \<Rightarrow> bool"
  findTokenAddressOrThrowApiError :: "string option \<Rightarrow> string \<Rightarrow> nat \<Rightarrow> exn + string"
  findTokenAddressOrThrow :: "string option \<Rightarrow> nat \<Rightarrow> exn + string"
  svc_calculateSwapQuoteAsync :: "CalculateSwapQuoteParams \<Rightarrow> exn + jsobject"
  svc_getSwapQuoteForWrapAsync :: "CalculateSwapQuoteParams \<Rightarrow> exn + jsobject"
  svc_getSwapQuoteForUnwrapAsync :: "CalculateSwapQuoteParams \<Rightarrow> exn + jsobject"
  svc_calculateMarketDepthAsync :: "MarketDepthParams \<Rightarrow> exn + json"
  getPriceComparisonFromQuote :: "nat \<Rightarrow> MarketOperation \<Rightarrow> jsobject \<Rightarrow> json list option"
  renameNative :: "json \<Rightarrow> json"

text \<open>
  \<open>Number.parseFloat(req.query.x as string)\<close>: the parameter may be absent, and
  \<open>Number.parseFloat(undefined)\<close> is \<open>NaN\<close>.
\<close>

definition Number_parseFloat :: "env \<Rightarrow> string option \<Rightarrow> jsnum" where
  "Number_parseFloat env v = (case v of None \<Rightarrow> NaN | Some s \<Rightarrow> parseFloat env s)"

text \<open>
  Modelled from the spec: \<open>DEFAULT_QUOTE_SLIPPAGE_PERCENTAGE\<close> is imported from the
  constants module, which is not among the sources; the specification gives the fixed
  default as 1 percent (0.01).
\<close>

definition DEFAULT_QUOTE_SLIPPAGE_PERCENTAGE :: jsnum where
  "DEFAULT_QUOTE_SLIPPAGE_PERCENTAGE = Finite (1 / 100)"

text \<open>
  Modelled from the spec: \<open>NULL_ADDRESS\<close> is imported from the utilities package, which
  is not among the sources; the specification describes it as the null (zero) address
  sentinel.
\<close>

definition NULL_ADDRESS :: string where
  "NULL_ADDRESS = ''0x0000000000000000000000000000000000000000''"


section \<open>The request parser\<close>

text \<open>
  \<open>parseGetSwapQuoteRequestParams\<close> (lines 351 to 485). The checks run in the
  order of the source and the first one that fails ends the parse. The calls to the logger
  write to the process log and return nothing; the log is not part of the model, and only
  what the evaluation of their arguments can throw is.
\<close>

text \<open>
  The locals of the parser: the slippage of lines 363 and 364, the two fee fractions of
  lines 376 and 377, and the result of \<open>parseUtils.parseRequestForExcludedSources\<close>
  (lines 410 to 420).
\<close>

definition parsedSlippage :: "env \<Rightarrow> request \<Rightarrow> jsnum" where
  "parsedSlippage env req =
     or_num (Number_parseFloat env (query req ''slippagePercentage''))
       DEFAULT_QUOTE_SLIPPAGE_PERCENTAGE"

definition parsedSellFee :: "env \<Rightarrow> request \<Rightarrow> jsnum" where
  "parsedSellFee env req =
     or_num (Number_parseFloat env (query req ''sellTokenPercentageFee'')) (Finite 0)"

definition parsedBuyFee :: "env \<Rightarrow> request \<Rightarrow> jsnum" where
  "parsedBuyFee env req =
     or_num (Number_parseFloat env (query req ''buyTokenPercentageFee'')) (Finite 0)"

definition parsedSources ::
    "env \<Rightarrow> request \<Rightarrow> endpoint \<Rightarrow> exn + (string list \<times> string list \<times> bool)" where
  "parsedSources env req endpoint =
     parseRequestForExcludedSources env
       (query req ''excludedSources'') (query req ''includedSources'')
       (query req ''intentOnFilling'') (query req ''takerAddress'') (header req ''0x-api-key'')
       (RFQT_API_KEY_WHITELIST env) endpoint"

text \<open>The three validation errors of the parser.\<close>

definition slippageOutOfRange :: api_error where
  "slippageOutOfRange =
     ValidationError
       [\<lparr>field = ''slippagePercentage'', code = ValueOutOfRange,
         reason = ReasonEnum PercentageOutOfRange\<rparr>]"

definition sellFeeUnsupported :: api_error where
  "sellFeeUnsupported =
     ValidationError
       [\<lparr>field = ''sellTokenPercentageFee'', code = UnsupportedOption,
         reason = ReasonEnum ArgumentNotYetSupported\<rparr>]"

definition buyFeeOutOfRange :: api_error where
  "buyFeeOutOfRange =
     ValidationError
       [\<lparr>field = ''buyTokenPercentageFee'', code = ValueOutOfRange,
         reason = ReasonEnum PercentageOutOfRange\<rparr>]"

text \<open>The descriptor of the \<open>else\<close> branch of lines 396 to 406.\<close>

definition zeroAffiliateFee :: AffiliateFee where
  "zeroAffiliateFee =
     \<lparr>recipient = NULL_ADDRESS, sellTokenPercentageFee = Finite 0,
      buyTokenPercentageFee = Finite 0\<rparr>"

text \<open>The affiliate fee descriptor of lines 396 to 406.\<close>

definition parsedAffiliateFee :: "env \<Rightarrow> request \<Rightarrow> AffiliateFee" where
  "parsedAffiliateFee env req =
     (case query req ''feeRecipient'' of
        Some r \<Rightarrow>
          if r \<noteq> [] then
            \<lparr>recipient = r, sellTokenPercentageFee = parsedSellFee env req,
             buyTokenPercentageFee = parsedBuyFee env req\<rparr>
          else zeroAffiliateFee
      | None \<Rightarrow> zeroAffiliateFee)"

text \<open>
  The restricted-quote options of lines 439 to 458; the last argument is the flag
  \<open>nativeExclusivelyRFQT\<close> that \<open>parseRequestForExcludedSources\<close> returned.
\<close>

definition parsedRfqt :: "request \<Rightarrow> endpoint \<Rightarrow> bool \<Rightarrow> RfqtRequestOpts option" where
  "parsedRfqt req endpoint exclusively =
     (if truthy_str (header req ''0x-api-key'') then
        (if endpoint = Quote \<and> truthy_str (query req ''takerAddress'') then
           Some \<lparr>intentOnFilling = (query req ''intentOnFilling'' = Some ''true''),
                 isIndicative = False,
                 nativeExclusivelyRFQT = exclusively\<rparr>
         else if endpoint = Price then
           Some \<lparr>intentOnFilling = False,
                 isIndicative = True,
                 nativeExclusivelyRFQT = exclusively\<rparr>
         else None)
      else None)"

text \<open>The flag of line 460.\<close>

definition parsedSkipValidation :: "request \<Rightarrow> bool" where
  "parsedSkipValidation req =
     (if query req ''skipValidation'' = None then False
      else query req ''skipValidation'' = Some ''true'')"

text \<open>
  The object returned in lines 467 to 484, from the three results of
  \<open>parseRequestForExcludedSources\<close>.
\<close>

definition assembleRequest ::
    "env \<Rightarrow> request \<Rightarrow> endpoint \<Rightarrow> string list \<Rightarrow> string list \<Rightarrow> bool
      \<Rightarrow> GetSwapQuoteRequestParams" where
  "assembleRequest env req endpoint excluded included exclusively =
     \<lparr>takerAddress = query req ''takerAddress'',
      sellToken = query req ''sellToken'',
      buyToken = query req ''buyToken'',
      sellAmount = optionalBigNumber (query req ''sellAmount''),
      buyAmount = optionalBigNumber (query req ''buyAmount''),
      slippagePercentage = parsedSlippage env req,
      gasPrice = optionalBigNumber (query req ''gasPrice''),
      excludedSources =
        determineExcludedSources env excluded (header req ''0x-api-key'')
          (PLP_API_KEY_WHITELIST env),
      includedSources = included,
      affiliateAddress = query req ''affiliateAddress'',
      rfqt = parsedRfqt req endpoint exclusively,
      skipValidation = parsedSkipValidation req,
      apiKey = header req ''0x-api-key'',
      affiliateFee = parsedAffiliateFee env req,
      includePriceComparisons =
        (if query req ''includePriceComparisons'' = Some ''true'' then True else False),
      shouldSellEntireBalance =
        (if query req ''shouldSellEntireBalance'' = Some ''true'' then True else False)\<rparr>"

definition parseGetSwapQuoteRequestParams ::
    "env \<Rightarrow> request \<Rightarrow> endpoint \<Rightarrow> api_error + GetSwapQuoteRequestParams" where
  "parseGetSwapQuoteRequestParams env req endpoint =
     (case validateSchema env (query req) of
        Some e \<Rightarrow> Inl (Rethrown e)
      | None \<Rightarrow>
        if gt_num (parsedSlippage env req) (Finite 1) then Inl slippageOutOfRange
        else if gt_num (parsedSellFee env req) (Finite 0) then Inl sellFeeUnsupported
        else if gt_num (parsedBuyFee env req) (Finite 1) then Inl buyFeeOutOfRange
        else
          (case parsedSources env req endpoint of
             Inl e \<Rightarrow> Inl (Rethrown e)
           | Inr (excluded, included, exclusively) \<Rightarrow>
               Inr (assembleRequest env req endpoint excluded included exclusively)))"


section \<open>Quote orchestration\<close>

text \<open>
  \<open>SwapHandlers._calculateSwapQuoteAsync\<close> (lines 233 to 348) in its three parts:
  the token resolution with the equal-token check and the construction of the service
  argument (lines 255 to 302), the choice of the service method (lines 304 to 312), and
  the \<open>catch\<close> block (lines 313 to 347).
\<close>

definition equalTokenError :: api_error where
  "equalTokenError =
     ValidationError
       (map (\<lambda>f. \<lparr>field = f, code = RequiredField,
                   reason = ReasonText ''buyToken and sellToken must be different''\<rparr>)
            [''buyToken'', ''sellToken''])"

text \<open>
  The locals of lines 255 to 261: the two token resolutions, which can throw, and the
  flags \<open>isWrap\<close> and \<open>isUnwrap\<close>.
\<close>

definition sellTokenAddress :: "env \<Rightarrow> GetSwapQuoteRequestParams \<Rightarrow> exn + string" where
  "sellTokenAddress env params =
     findTokenAddressOrThrowApiError env
       (if isETHSymbolOrAddress env (sellToken params) then Some ''WETH'' else sellToken params)
       ''sellToken'' (CHAIN_ID env)"

definition buyTokenAddress :: "env \<Rightarrow> GetSwapQuoteRequestParams \<Rightarrow> exn + string" where
  "buyTokenAddress env params =
     findTokenAddressOrThrowApiError env
       (if isETHSymbolOrAddress env (buyToken params) then Some ''WETH'' else buyToken params)
       ''buyToken'' (CHAIN_ID env)"

definition isWrap :: "env \<Rightarrow> GetSwapQuoteRequestParams \<Rightarrow> bool" where
  "isWrap env params =
     (isETHSymbolOrAddress env (sellToken params)
      \<and> isWETHSymbolOrAddress env (buyToken params) (CHAIN_ID env))"

definition isUnwrap :: "env \<Rightarrow> GetSwapQuoteRequestParams \<Rightarrow> bool" where
  "isUnwrap env params =
     (isWETHSymbolOrAddress env (sellToken params) (CHAIN_ID env)
      \<and> isETHSymbolOrAddress env (buyToken params))"

text \<open>
  Lines 255 to 302. The result is the service argument with the flags \<open>isUnwrap\<close> and
  \<open>isWrap\<close>, in this order.
\<close>

definition buildCalculateSwapQuoteParams ::
    "env \<Rightarrow> GetSwapQuoteRequestParams \<Rightarrow> api_error + (CalculateSwapQuoteParams \<times> bool \<times> bool)" where
  "buildCalculateSwapQuoteParams env params =
     (case sellTokenAddress env params of
        Inl e \<Rightarrow> Inl (Rethrown e)
      | Inr sellAddr \<Rightarrow>
        (case buyTokenAddress env params of
           Inl e \<Rightarrow> Inl (Rethrown e)
         | Inr buyAddr \<Rightarrow>
           if \<not> isUnwrap env params \<and> \<not> isWrap env params \<and> sellAddr = buyAddr then
             Inl equalTokenError
           else
             Inr (\<lparr>cp_buyTokenAddress = buyAddr,
                   cp_sellTokenAddress = sellAddr,
                   cp_buyAmount = buyAmount params,
                   cp_sellAmount = sellAmount params,
                   cp_from = takerAddress params,
                   cp_isETHSell = isETHSymbolOrAddress env (sellToken params),
                   cp_isETHBuy = isETHSymbolOrAddress env (buyToken params),
                   cp_slippagePercentage = slippagePercentage params,
                   cp_gasPrice = gasPrice params,
                   cp_excludedSources = excludedSources params,
                   cp_includedSources = includedSources params,
                   cp_affiliateAddress = affiliateAddress params,
                   cp_apiKey = apiKey params,
                   cp_rfqt =
                     (case rfqt params of
                        None \<Rightarrow> None
                      | Some r \<Rightarrow>
                          Some \<lparr>intentOnFilling = intentOnFilling r,
                                isIndicative = isIndicative r,
                                nativeExclusivelyRFQT = nativeExclusivelyRFQT r\<rparr>),
                   cp_skipValidation = skipValidation params,
                   cp_affiliateFee = affiliateFee params,
                   cp_isMetaTransaction = False,
                   cp_includePriceComparisons = includePriceComparisons params,
                   cp_shouldSellEntireBalance = shouldSellEntireBalance params\<rparr>,
                  isUnwrap env params, isWrap env params)))"

definition dispatchSwapQuote ::
    "env \<Rightarrow> bool \<Rightarrow> bool \<Rightarrow> CalculateSwapQuoteParams \<Rightarrow> exn + jsobject" where
  "dispatchSwapQuote env unwrap wrap csp =
     (if unwrap then svc_getSwapQuoteForUnwrapAsync env csp
      else if wrap then svc_getSwapQuoteForWrapAsync env csp
      else svc_calculateSwapQuoteAsync env csp)"

text \<open>
  The \<open>catch\<close> block. \<open>buyAmount\<close> is a BigNumber object or \<open>undefined\<close>, so it is
  truthy exactly when it is defined.
\<close>

definition classifySwapQuoteError :: "env \<Rightarrow> BigNumber option \<Rightarrow> exn \<Rightarrow> api_error" where
  "classifySwapQuoteError env buyAmount' e =
     (if isAPIError e then Rethrown e
      else if isRevertError e then RevertAPIError e
      else
        let errorMessage = message e in
        if startsWith errorMessage (InsufficientAssetLiquidity env)
           \<or> startsWith errorMessage ''NO_OPTIMAL_PATH'' then
          ValidationError
            [\<lparr>field = (if buyAmount' \<noteq> None then ''buyAmount'' else ''sellAmount''),
              code = ValueOutOfRange,
              reason = ReasonText (InsufficientAssetLiquidity env)\<rparr>]
        else if startsWith errorMessage (AssetUnavailable env) then
          ValidationError
            [\<lparr>field = ''token'', code = ValueOutOfRange, reason = ReasonText (message e)\<rparr>]
        else InternalServerError (message e))"

definition SwapHandlers_calculateSwapQuoteAsync ::
    "env \<Rightarrow> GetSwapQuoteRequestParams \<Rightarrow> api_error + jsobject" where
  "SwapHandlers_calculateSwapQuoteAsync env params =
     (case buildCalculateSwapQuoteParams env params of
        Inl err \<Rightarrow> Inl err
      | Inr (csp, unwrap, wrap) \<Rightarrow>
        (case dispatchSwapQuote env unwrap wrap csp of
           Inr swapQuote \<Rightarrow> Inr swapQuote
         | Inl e \<Rightarrow> Inl (classifySwapQuoteError env (buyAmount params) e)))"


section \<open>The quote and price handlers\<close>

text \<open>
  \<open>quote.orders.map(order => order.makerAddress)\<close>, an argument of the log records of
  lines 98 and 145. It throws a \<open>TypeError\<close> unless \<open>quote.orders\<close> is an array
  without \<open>null\<close> elements.
\<close>

definition makerAddresses :: "jsobject \<Rightarrow> api_error + json option list" where
  "makerAddresses quote =
     (case quote ''orders'' of
        Some (JArray orders) \<Rightarrow>
          if list_all (\<lambda>order. order \<noteq> JNull) orders
          then Inr (map (\<lambda>order. property order ''makerAddress'') orders)
          else Inl JsTypeError
      | _ \<Rightarrow> Inl JsTypeError)"

text \<open>
  \<open>getSwapQuoteAsync\<close> (lines 86 to 121). The log record of lines 90 to 100 is built
  only when the request has restricted-quote options. Assigning \<open>undefined\<close> to
  \<open>response.priceComparisons\<close> leaves no such property in the JSON body, which the
  update with \<open>None\<close> expresses.
\<close>

definition getSwapQuoteAsync :: "env \<Rightarrow> request \<Rightarrow> api_error + jsobject http_response" where
  "getSwapQuoteAsync env req =
     (case parseGetSwapQuoteRequestParams env req Quote of
        Inl err \<Rightarrow> Inl err
      | Inr params \<Rightarrow>
        (case SwapHandlers_calculateSwapQuoteAsync env params of
           Inl err \<Rightarrow> Inl err
         | Inr quote \<Rightarrow>
           (case (if rfqt params \<noteq> None then makerAddresses quote else Inr []) of
              Inl err \<Rightarrow> Inl err
            | Inr makers \<Rightarrow>
              let response = lodash_omit quote [''quoteReport'', ''decodedUniqueId''];
                  quoteReport = quote ''quoteReport'';
                  response' =
                    (if includePriceComparisons params \<and> truthy_prop quoteReport then
                       let side = (if sellAmount params \<noteq> None then Sell else Buy);
                           priceComparisons =
                             getPriceComparisonFromQuote env (CHAIN_ID env) side quote
                       in response(''priceComparisons'' :=
                            map_option (\<lambda>scs. JArray (map (renameNative env) scs))
                              priceComparisons)
                     else response)
              in Inr \<lparr>status = HttpStatus_OK, body = Some response'\<rparr>)))"

text \<open>
  \<open>getSwapPriceAsync\<close> (lines 134 to 175). The log record of lines 137 to 147 is built
  for every quote. The handler builds \<open>response\<close> from the picked fields and then passes
  \<open>quote\<close> to \<open>send\<close> (line 174).
\<close>

definition getSwapPriceAsync :: "env \<Rightarrow> request \<Rightarrow> api_error + jsobject http_response" where
  "getSwapPriceAsync env req =
     (case parseGetSwapQuoteRequestParams env req Price of
        Inl err \<Rightarrow> Inl err
      | Inr params \<Rightarrow>
        (case SwapHandlers_calculateSwapQuoteAsync env (params\<lparr>skipValidation := True\<rparr>) of
           Inl err \<Rightarrow> Inl err
         | Inr quote \<Rightarrow>
           (case makerAddresses quote of
              Inl err \<Rightarrow> Inl err
            | Inr makers \<Rightarrow>
              let response =
                    lodash_pick quote
                      [''price'', ''value'', ''gasPrice'', ''gas'', ''estimatedGas'',
                       ''protocolFee'', ''minimumProtocolFee'', ''buyTokenAddress'',
                       ''buyAmount'', ''sellTokenAddress'', ''sellAmount'', ''sources'',
                       ''allowanceTarget'', ''sellTokenToEthRate'', ''buyTokenToEthRate''];
                  quoteReport = quote ''quoteReport'';
                  response' =
                    (if includePriceComparisons params \<and> truthy_prop quoteReport then
                       let marketSide = (if sellAmount params \<noteq> None then Sell else Buy)
                       in response(''priceComparisons'' :=
                            map_option (\<lambda>scs. JArray (map (renameNative env) scs))
                              (getPriceComparisonFromQuote env (CHAIN_ID env) marketSide quote))
                     else response)
              in Inr \<lparr>status = HttpStatus_OK, body = Some quote\<rparr>)))"


section \<open>The registry handler\<close>

text \<open>
  \<open>BEARER_REGEX = /^Bearer\s(.{36})$/\<close>. A header value arrives as a string of one-byte
  characters. Among these, \<open>\s\<close> matches the tab, the line feed, the vertical tab, the
  form feed, the carriage return, the space and the no-break space (codes 9 to 13, 32 and
  160), and \<open>.\<close> matches every character but the line terminators (codes 10 and 13).
  Without the multiline flag \<open>$\<close> matches at the end of the input only. The result of
  the match is the captured group.
\<close>

definition is_whitespace :: "char \<Rightarrow> bool" where
  "is_whitespace c = (of_char c \<in> {9, 10, 11, 12, 13, 32, 160 :: nat})"

definition is_line_terminator :: "char \<Rightarrow> bool" where
  "is_line_terminator c = (of_char c \<in> {10, 13 :: nat})"

definition match_BEARER_REGEX :: "string \<Rightarrow> string option" where
  "match_BEARER_REGEX s =
     (if length s = 43 \<and> take 6 s = ''Bearer'' \<and> is_whitespace (s ! 6)
         \<and> list_all (\<lambda>c. \<not> is_line_terminator c) (drop 7 s)
      then Some (drop 7 s) else None)"

definition REGISTRY_SET :: "env \<Rightarrow> string set" where
  "REGISTRY_SET env = set (RFQT_REGISTRY_PASSWORDS env)"

text \<open>
  The counter \<open>REGISTRY_ENDPOINT_FETCHED\<close>: one count for each label. The label is
  \<open>auth || 'N/A'\<close>.
\<close>

type_synonym counter = "string \<Rightarrow> nat"

definition counter_inc :: "counter \<Rightarrow> string \<Rightarrow> counter" where
  "counter_inc c l = c(l := c l + 1)"

fun or_str :: "string option \<Rightarrow> string \<Rightarrow> string" where
  "or_str None d = d"
| "or_str (Some s) d = (if s \<noteq> [] then s else d)"

definition unauthorized :: "string list http_response" where
  "unauthorized = \<lparr>status = HttpStatus_UNAUTHORIZED, body = None\<rparr>"

text \<open>
  \<open>getRfqRegistryAsync\<close> (lines 64 to 81): the response and the counter after the
  request.
\<close>

definition getRfqRegistryAsync ::
    "env \<Rightarrow> request \<Rightarrow> counter \<Rightarrow> string list http_response \<times> counter" where
  "getRfqRegistryAsync env req fetched =
     (let auth = header req ''Authorization'';
          fetched' = counter_inc fetched (or_str auth ''N/A'')
      in
      case auth of
        None \<Rightarrow> (unauthorized, fetched')
      | Some a \<Rightarrow>
        (case match_BEARER_REGEX a of
           None \<Rightarrow> (unauthorized, fetched')
         | Some authToken \<Rightarrow>
           if authToken \<notin> REGISTRY_SET env then (unauthorized, fetched')
           else (\<lparr>status = HttpStatus_OK, body = Some (RFQT_API_KEY_WHITELIST env)\<rparr>, fetched')))"


section \<open>The market-depth handler\<close>

text \<open>\<open>getMarketDepthAsync\<close> (lines 194 to 231).\<close>

definition invalidPairError :: "string option \<Rightarrow> string option \<Rightarrow> api_error" where
  "invalidPairError sellTokenSymbolOrAddress buyTokenSymbolOrAddress =
     ValidationError
       [\<lparr>field = ''buyToken'', code = InvalidAddress,
         reason = ReasonText (''Invalid pair '' @ template_str sellTokenSymbolOrAddress @ ''/''
                              @ template_str buyTokenSymbolOrAddress)\<rparr>]"

definition sourcesOfQuery :: "env \<Rightarrow> string option \<Rightarrow> exn + string list" where
  "sourcesOfQuery env v =
     (case v of
        None \<Rightarrow> Inr []
      | Some s \<Rightarrow> parseStringArrForERC20BridgeSources env (split_on CHR '','' s))"

text \<open>The substitution of lines 196 to 201: a native-asset identifier becomes \<open>'WETH'\<close>.\<close>

definition marketDepthToken :: "env \<Rightarrow> string option \<Rightarrow> string option" where
  "marketDepthToken env t = (if isETHSymbolOrAddress env t then Some ''WETH'' else t)"

definition getMarketDepthAsync :: "env \<Rightarrow> request \<Rightarrow> api_error + json http_response" where
  "getMarketDepthAsync env req =
     (let buyTokenSymbolOrAddress = marketDepthToken env (query req ''buyToken'');
          sellTokenSymbolOrAddress = marketDepthToken env (query req ''sellToken'')
      in
      if buyTokenSymbolOrAddress = sellTokenSymbolOrAddress then
        Inl (invalidPairError sellTokenSymbolOrAddress buyTokenSymbolOrAddress)
      else
        case findTokenAddressOrThrow env buyTokenSymbolOrAddress (CHAIN_ID env) of
          Inl e \<Rightarrow> Inl (Rethrown e)
        | Inr buyAddr \<Rightarrow>
          (case findTokenAddressOrThrow env sellTokenSymbolOrAddress (CHAIN_ID env) of
             Inl e \<Rightarrow> Inl (Rethrown e)
           | Inr sellAddr \<Rightarrow>
             let numSamples =
                   (case query req ''numSamples'' of
                      None \<Rightarrow> MARKET_DEPTH_MAX_SAMPLES env
                    | Some s \<Rightarrow> if s \<noteq> [] then parseInt env s else MARKET_DEPTH_MAX_SAMPLES env);
                 sampleDistributionBase =
                   (case query req ''sampleDistributionBase'' of
                      None \<Rightarrow> MARKET_DEPTH_DEFAULT_DISTRIBUTION env
                    | Some s \<Rightarrow>
                        if s \<noteq> [] then parseFloat env s else MARKET_DEPTH_DEFAULT_DISTRIBUTION env)
             in
             (case sourcesOfQuery env (query req ''excludedSources'') of
                Inl e \<Rightarrow> Inl (Rethrown e)
              | Inr excluded \<Rightarrow>
                (case sourcesOfQuery env (query req ''includedSources'') of
                   Inl e \<Rightarrow> Inl (Rethrown e)
                 | Inr included \<Rightarrow>
                   (case svc_calculateMarketDepthAsync env
                           \<lparr>md_buyToken = buyAddr,
                            md_sellToken = sellAddr,
                            md_sellAmount = BigNumber (query req ''sellAmount''),
                            md_numSamples = numSamples,
                            md_sampleDistributionBase = sampleDistributionBase,
                            md_excludedSources = excluded,
                            md_includedSources = included\<rparr> of
                      Inl e \<Rightarrow> Inl (Rethrown e)
                    | Inr response \<Rightarrow> Inr \<lparr>status = HttpStatus_OK, body = Some response\<rparr>)))))"


section \<open>A concrete deployment\<close>

text \<open>
  A configuration and collaborators on which the handlers can be run: three tokens and the
  native asset, a schema that accepts every query, a source parser that returns the
  caller's excluded list, and a swap service that answers every request with one quote.
\<close>

definition sampleQuote :: jsobject where
  "sampleQuote =
     [''price'' \<mapsto> JString ''1.01'',
      ''buyAmount'' \<mapsto> JString ''1010'',
      ''sellAmount'' \<mapsto> JString ''1000'',
      ''orders'' \<mapsto> JArray [JObject [(''makerAddress'', JString ''0x56ed'')]],
      ''quoteReport'' \<mapsto> JObject [(''sourcesConsidered'', JArray [])],
      ''decodedUniqueId'' \<mapsto> JString ''a1b2c3-1599'']"

definition sampleParseFloat :: "string \<Rightarrow> jsnum" where
  "sampleParseFloat s =
     (if s = ''0'' then Finite 0
      else if s = ''0.5'' then Finite (1 / 2)
      else if s = ''1'' then Finite 1
      else if s = ''2'' then Finite 2
      else if s = ''-0.5'' then Finite (- 1 / 2)
      else NaN)"

definition sampleFindToken :: "string option \<Rightarrow> exn + string" where
  "sampleFindToken t =
     (if t = Some ''WETH'' then Inr ''0xc02a''
      else if t = Some ''DAI'' then Inr ''0x6b17''
      else if t = Some ''USDC'' then Inr ''0xa0b8''
      else Inl \<lparr>isAPIError = True, isRevertError = False, message = ''Could not find token''\<rparr>)"

definition sampleEnv :: env where
  "sampleEnv =
     \<lparr>CHAIN_ID = 1,
      RFQT_API_KEY_WHITELIST = [''rfqt-key''],
      PLP_API_KEY_WHITELIST = [''plp-key''],
      RFQT_REGISTRY_PASSWORDS = [''123e4567-e89b-12d3-a456-426614174000''],
      MARKET_DEPTH_MAX_SAMPLES = Finite 50,
      MARKET_DEPTH_DEFAULT_DISTRIBUTION = Finite 1,
      InsufficientAssetLiquidity = ''INSUFFICIENT_ASSET_LIQUIDITY'',
      AssetUnavailable = ''ASSET_UNAVAILABLE'',
      parseFloat = sampleParseFloat,
      parseInt = sampleParseFloat,
      validateSchema = (\<lambda>q. None),
      parseRequestForExcludedSources =
        (\<lambda>ex inc intent taker key whitelist ep.
           Inr (case ex of None \<Rightarrow> [] | Some s \<Rightarrow> split_on CHR '','' s, [], False)),
      parseStringArrForERC20BridgeSources = (\<lambda>xs. Inr xs),
      determineExcludedSources = (\<lambda>ex key whitelist. ex),
      isETHSymbolOrAddress = (\<lambda>t. t = Some ''ETH''),
      isWETHSymbolOrAddress = (\<lambda>t chain. t = Some ''WETH''),
      findTokenAddressOrThrowApiError = (\<lambda>t f chain. sampleFindToken t),
      findTokenAddressOrThrow = (\<lambda>t chain. sampleFindToken t),
      svc_calculateSwapQuoteAsync = (\<lambda>csp. Inr sampleQuote),
      svc_getSwapQuoteForWrapAsync = (\<lambda>csp. Inr sampleQuote),
      svc_getSwapQuoteForUnwrapAsync = (\<lambda>csp. Inr sampleQuote),
      svc_calculateMarketDepthAsync = (\<lambda>mdp. Inr JNull),
      getPriceComparisonFromQuote = (\<lambda>chain side quote. None),
      renameNative = (\<lambda>sc. sc)\<rparr>"

text \<open>A request with the given query parameters and headers.\<close>

definition mkRequest :: "(string \<times> string) list \<Rightarrow> (string \<times> string) list \<Rightarrow> request" where
  "mkRequest qs hs = \<lparr>query = map_of qs, header = map_of hs\<rparr>"

definition daiForUsdc :: "(string \<times> string) list" where
  "daiForUsdc = [(''sellToken'', ''DAI''), (''buyToken'', ''USDC''), (''sellAmount'', ''1000'')]"


text \<open>
  The sample deployment at a moment when the swap service finds no liquidity: its
  ordinary method throws a plain error with the given message.
\<close>

definition illiquidEnv :: env where
  "illiquidEnv =
     sampleEnv\<lparr>svc_calculateSwapQuoteAsync :=
       (\<lambda>csp. Inl \<lparr>isAPIError = False, isRevertError = False,
                    message = ''INSUFFICIENT_ASSET_LIQUIDITY: no route''\<rparr>)\<rparr>"

text \<open>The canonical request of a query with no headers on the sample deployment.\<close>

definition sampleParams :: "(string \<times> string) list \<Rightarrow> GetSwapQuoteRequestParams" where
  "sampleParams qs = assembleRequest sampleEnv (mkRequest qs []) Quote [] [] False"

text \<open>The registry password of the sample deployment.\<close>

definition samplePassword :: string where
  "samplePassword = ''123e4567-e89b-12d3-a456-426614174000''"


section \<open>Auxiliary notions of the statements\<close>

text \<open>
  The sample deployment with a swap service that reports, in the property
  \<open>skippedValidation\<close> of its quote, the \<open>skipValidation\<close> flag of the argument it
  was called with.
\<close>

definition echoEnv :: env where
  "echoEnv =
     sampleEnv\<lparr>svc_calculateSwapQuoteAsync :=
       (\<lambda>csp. Inr (sampleQuote(''skippedValidation'' \<mapsto> JBool (cp_skipValidation csp))))\<rparr>"

text \<open>
  The header pattern as the specification words it: the text \<open>Bearer\<close>, one space and a
  token of 36 characters. The result is the token.
\<close>

definition bearer_space_pattern :: "string \<Rightarrow> string option" where
  "bearer_space_pattern s =
     (if length s = 43 \<and> take 7 s = ''Bearer '' then Some (drop 7 s) else None)"


section \<open>Facts about the parser\<close>

lemmas sample_defs =
  sampleEnv_def mkRequest_def daiForUsdc_def sampleParseFloat_def sampleFindToken_def

lemmas parser_defs =
  parseGetSwapQuoteRequestParams_def assembleRequest_def parsedSlippage_def parsedSellFee_def
  parsedBuyFee_def parsedSources_def parsedAffiliateFee_def parsedRfqt_def
  parsedSkipValidation_def Number_parseFloat_def or_num_def optionalBigNumber_def
  DEFAULT_QUOTE_SLIPPAGE_PERCENTAGE_def zeroAffiliateFee_def

text \<open>
  The parser returns a canonical request exactly when the schema accepts the query, the
  three range checks pass and the source parser returns; the request is then the assembled
  one.
\<close>

lemma parse_Inr_iff:
  "parseGetSwapQuoteRequestParams env req ep = Inr p \<longleftrightarrow>
     validateSchema env (query req) = None
     \<and> \<not> gt_num (parsedSlippage env req) (Finite 1)
     \<and> \<not> gt_num (parsedSellFee env req) (Finite 0)
     \<and> \<not> gt_num (parsedBuyFee env req) (Finite 1)
     \<and> (\<exists>ex inc n. parsedSources env req ep = Inr (ex, inc, n)
                   \<and> p = assembleRequest env req ep ex inc n)"
  by (auto simp: parseGetSwapQuoteRequestParams_def
           split: option.splits sum.splits prod.splits)

lemma parse_Inl_cases:
  assumes "parseGetSwapQuoteRequestParams env req ep = Inl err"
  shows "(\<exists>e. err = Rethrown e)
       \<or> (err = slippageOutOfRange \<and> gt_num (parsedSlippage env req) (Finite 1))
       \<or> (err = sellFeeUnsupported \<and> gt_num (parsedSellFee env req) (Finite 0))
       \<or> (err = buyFeeOutOfRange \<and> gt_num (parsedBuyFee env req) (Finite 1))"
  using assms
  by (auto simp: parseGetSwapQuoteRequestParams_def
           split: option.splits sum.splits prod.splits if_splits)

lemma parser_errors_distinct:
  "slippageOutOfRange \<noteq> sellFeeUnsupported" "slippageOutOfRange \<noteq> buyFeeOutOfRange"
  "sellFeeUnsupported \<noteq> buyFeeOutOfRange"
  "slippageOutOfRange \<noteq> Rethrown e" "sellFeeUnsupported \<noteq> Rethrown e"
  "buyFeeOutOfRange \<noteq> Rethrown e"
  by (simp_all add: slippageOutOfRange_def sellFeeUnsupported_def buyFeeOutOfRange_def)

lemma gt_num_or_num_default:
  "gt_num (or_num v DEFAULT_QUOTE_SLIPPAGE_PERCENTAGE) (Finite 1) = gt_num v (Finite 1)"
  by (cases v) (simp_all add: or_num_def DEFAULT_QUOTE_SLIPPAGE_PERCENTAGE_def)

lemma parsedSlippage_cases:
  assumes "Number_parseFloat env (query req ''slippagePercentage'') = v"
  shows "parsedSlippage env req =
          (if v = NaN \<or> v = Finite 0 then DEFAULT_QUOTE_SLIPPAGE_PERCENTAGE else v)"
  using assms by (cases v) (auto simp: parsedSlippage_def or_num_def)

lemma gt_parsedSlippage:
  assumes "Number_parseFloat env (query req ''slippagePercentage'') = v"
  shows "gt_num (parsedSlippage env req) (Finite 1) = gt_num v (Finite 1)"
  using assms by (auto simp: parsedSlippage_def gt_num_or_num_default)


section \<open>Slippage\<close>

text \<open>
  Claim C2, as the code has it. Let \<open>v\<close> be the result of \<open>Number.parseFloat\<close> on the
  raw \<open>slippagePercentage\<close>. An absent parameter parses to \<open>NaN\<close>. If \<open>v\<close> is
  \<open>NaN\<close> (parsing failed or the parameter is absent) or zero, every canonical request
  the parser returns carries the default 0.01, and the slippage check does not fail. If
  \<open>v\<close> lies in (0, 1], every canonical request the parser returns carries exactly
  \<open>v\<close>, and the slippage check does not fail. If \<open>v\<close> exceeds 1 and the schema
  accepts the query, parsing fails with the validation error on the field
  \<open>slippagePercentage\<close> with the reason percentage-out-of-range. Whenever \<open>v\<close> does
  not exceed 1 and the other checks pass, the parser does return a request. Negative
  values are not covered by this statement: the code does not replace them by the default.
\<close>

theorem slippage_default_exact_or_rejected:
  assumes v: "Number_parseFloat env (query req ''slippagePercentage'') = v"
  shows "(query req ''slippagePercentage'' = None \<longrightarrow> v = NaN)
    \<and> (v = NaN \<or> v = Finite 0 \<longrightarrow>
         (\<forall>p. parseGetSwapQuoteRequestParams env req ep = Inr p \<longrightarrow>
               slippagePercentage p = DEFAULT_QUOTE_SLIPPAGE_PERCENTAGE)
         \<and> parseGetSwapQuoteRequestParams env req ep \<noteq> Inl slippageOutOfRange)
    \<and> (\<forall>r. v = Finite r \<and> 0 < r \<and> r \<le> 1 \<longrightarrow>
         (\<forall>p. parseGetSwapQuoteRequestParams env req ep = Inr p \<longrightarrow>
               slippagePercentage p = Finite r)
         \<and> parseGetSwapQuoteRequestParams env req ep \<noteq> Inl slippageOutOfRange)
    \<and> (gt_num v (Finite 1) \<and> validateSchema env (query req) = None \<longrightarrow>
         parseGetSwapQuoteRequestParams env req ep = Inl slippageOutOfRange)
    \<and> (\<not> gt_num v (Finite 1) \<and> validateSchema env (query req) = None
         \<and> \<not> gt_num (parsedSellFee env req) (Finite 0)
         \<and> \<not> gt_num (parsedBuyFee env req) (Finite 1)
         \<and> (\<exists>x. parsedSources env req ep = Inr x) \<longrightarrow>
         (\<exists>p. parseGetSwapQuoteRequestParams env req ep = Inr p))"
proof (intro conjI impI allI)
  assume "query req ''slippagePercentage'' = None"
  with v show "v = NaN" by (simp add: Number_parseFloat_def)
next
  fix p
  assume "v = NaN \<or> v = Finite 0"
    and "parseGetSwapQuoteRequestParams env req ep = Inr p"
  then show "slippagePercentage p = DEFAULT_QUOTE_SLIPPAGE_PERCENTAGE"
    using parsedSlippage_cases [OF v]
    by (auto simp: parse_Inr_iff assembleRequest_def)
next
  assume "v = NaN \<or> v = Finite 0"
  then have "\<not> gt_num (parsedSlippage env req) (Finite 1)"
    using gt_parsedSlippage [OF v] by auto
  then show "parseGetSwapQuoteRequestParams env req ep \<noteq> Inl slippageOutOfRange"
    using parse_Inl_cases [of env req ep slippageOutOfRange] parser_errors_distinct
    by auto
next
  fix r p
  assume "v = Finite r \<and> 0 < r \<and> r \<le> 1"
    and "parseGetSwapQuoteRequestParams env req ep = Inr p"
  then show "slippagePercentage p = Finite r"
    using parsedSlippage_cases [OF v]
    by (auto simp: parse_Inr_iff assembleRequest_def)
next
  fix r
  assume "v = Finite r \<and> 0 < r \<and> r \<le> 1"
  then have "\<not> gt_num (parsedSlippage env req) (Finite 1)"
    using gt_parsedSlippage [OF v] by auto
  then show "parseGetSwapQuoteRequestParams env req ep \<noteq> Inl slippageOutOfRange"
    using parse_Inl_cases [of env req ep slippageOutOfRange] parser_errors_distinct
    by auto
next
  assume "gt_num v (Finite 1) \<and> validateSchema env (query req) = None"
  then show "parseGetSwapQuoteRequestParams env req ep = Inl slippageOutOfRange"
    using gt_parsedSlippage [OF v]
    by (simp add: parseGetSwapQuoteRequestParams_def)
next
  assume a: "\<not> gt_num v (Finite 1) \<and> validateSchema env (query req) = None
         \<and> \<not> gt_num (parsedSellFee env req) (Finite 0)
         \<and> \<not> gt_num (parsedBuyFee env req) (Finite 1)
         \<and> (\<exists>x. parsedSources env req ep = Inr x)"
  then obtain ex inc n where "parsedSources env req ep = Inr (ex, inc, n)"
    by (metis prod_cases3)
  with a show "\<exists>p. parseGetSwapQuoteRequestParams env req ep = Inr p"
    using gt_parsedSlippage [OF v] by (auto simp: parse_Inr_iff)
qed

text \<open>
  The theorem at the sample deployment: no slippage parameter, the parameter 0.5 and the
  parameter 2.
\<close>

theorem slippage_default_exact_or_rejected_witness:
  "query (mkRequest daiForUsdc []) ''slippagePercentage'' = None
   \<and> map_sum id slippagePercentage
       (parseGetSwapQuoteRequestParams sampleEnv (mkRequest daiForUsdc []) Quote)
     = Inr DEFAULT_QUOTE_SLIPPAGE_PERCENTAGE
   \<and> Number_parseFloat sampleEnv
       (query (mkRequest ((''slippagePercentage'', ''0.5'') # daiForUsdc) []) ''slippagePercentage'')
     = Finite (1 / 2)
   \<and> map_sum id slippagePercentage
       (parseGetSwapQuoteRequestParams sampleEnv
          (mkRequest ((''slippagePercentage'', ''0.5'') # daiForUsdc) []) Quote)
     = Inr (Finite (1 / 2))
   \<and> gt_num (Number_parseFloat sampleEnv
       (query (mkRequest ((''slippagePercentage'', ''2'') # daiForUsdc) []) ''slippagePercentage''))
       (Finite 1)
   \<and> parseGetSwapQuoteRequestParams sampleEnv
          (mkRequest ((''slippagePercentage'', ''2'') # daiForUsdc) []) Quote
     = Inl slippageOutOfRange"
  using slippage_default_exact_or_rejected
          [of sampleEnv "mkRequest daiForUsdc []" NaN Quote]
        slippage_default_exact_or_rejected
          [of sampleEnv "mkRequest ((''slippagePercentage'', ''0.5'') # daiForUsdc) []"
              "Finite (1 / 2)" Quote]
        slippage_default_exact_or_rejected
          [of sampleEnv "mkRequest ((''slippagePercentage'', ''2'') # daiForUsdc) []"
              "Finite 2" Quote]
  by (simp add: parser_defs sample_defs)

text \<open>
  The claim as the specification words it also sends every non-positive value to the
  default. The raw value \<open>-0.5\<close> parses to a negative number, which is truthy and not
  above 1, and the canonical request carries it unchanged.
\<close>

theorem slippage_negative_counterexample:
  "Number_parseFloat sampleEnv
     (query (mkRequest ((''slippagePercentage'', ''-0.5'') # daiForUsdc) []) ''slippagePercentage'')
     = Finite (- 1 / 2)
   \<and> map_sum id slippagePercentage
       (parseGetSwapQuoteRequestParams sampleEnv
          (mkRequest ((''slippagePercentage'', ''-0.5'') # daiForUsdc) []) Quote)
     = Inr (Finite (- 1 / 2))
   \<and> Finite (- 1 / 2) \<noteq> DEFAULT_QUOTE_SLIPPAGE_PERCENTAGE"
  by (simp add: parser_defs sample_defs)

text \<open>
  This does not depend on the deployment: whenever the parser returns a request for a
  negative parsed value, the request carries that value.
\<close>

lemma negative_slippage_is_carried:
  assumes "Number_parseFloat env (query req ''slippagePercentage'') = Finite r"
    and "r < 0"
    and "parseGetSwapQuoteRequestParams env req ep = Inr p"
  shows "slippagePercentage p = Finite r"
proof -
  from assms(1,2) have "parsedSlippage env req = Finite r"
    using parsedSlippage_cases [OF assms(1)] by simp
  with assms(3) show ?thesis
    by (auto simp: parse_Inr_iff assembleRequest_def)
qed


section \<open>Affiliate fee\<close>

text \<open>
  Claim C3, as the code has it. The two fee checks run for every request that passed the
  schema and the slippage check, whether or not a fee recipient is supplied: a parsed
  \<open>sellTokenPercentageFee\<close> above 0 fails with the unsupported-option error on the field
  \<open>sellTokenPercentageFee\<close>; with a sell fee of 0, a parsed \<open>buyTokenPercentageFee\<close>
  above 1 fails with the percentage-out-of-range error on the field
  \<open>buyTokenPercentageFee\<close>. With a sell fee of 0 and a buy fee not above 1, every
  canonical request the parser returns carries the recipient, the sell fee 0 and exactly the
  parsed buy fee when a non-empty fee recipient is supplied, and the zero-fee descriptor
  with the null address when none is; and the parser does return a request whenever the
  source parser returns.
\<close>

theorem affiliate_fee_checks_unconditional:
  assumes schema: "validateSchema env (query req) = None"
    and slippage: "\<not> gt_num (parsedSlippage env req) (Finite 1)"
  shows "(gt_num (parsedSellFee env req) (Finite 0) \<longrightarrow>
           parseGetSwapQuoteRequestParams env req ep = Inl sellFeeUnsupported)
    \<and> (parsedSellFee env req = Finite 0 \<and> gt_num (parsedBuyFee env req) (Finite 1) \<longrightarrow>
           parseGetSwapQuoteRequestParams env req ep = Inl buyFeeOutOfRange)
    \<and> (parsedSellFee env req = Finite 0 \<and> \<not> gt_num (parsedBuyFee env req) (Finite 1) \<longrightarrow>
           (\<forall>p r. parseGetSwapQuoteRequestParams env req ep = Inr p
                  \<and> query req ''feeRecipient'' = Some r \<and> r \<noteq> [] \<longrightarrow>
                  affiliateFee p =
                    \<lparr>recipient = r, sellTokenPercentageFee = Finite 0,
                     buyTokenPercentageFee = parsedBuyFee env req\<rparr>)
         \<and> (\<forall>p. parseGetSwapQuoteRequestParams env req ep = Inr p
                  \<and> \<not> truthy_str (query req ''feeRecipient'') \<longrightarrow>
                  affiliateFee p = zeroAffiliateFee)
         \<and> ((\<exists>x. parsedSources env req ep = Inr x) \<longrightarrow>
                (\<exists>p. parseGetSwapQuoteRequestParams env req ep = Inr p)))"
proof (intro conjI impI allI)
  assume "gt_num (parsedSellFee env req) (Finite 0)"
  with schema slippage
  show "parseGetSwapQuoteRequestParams env req ep = Inl sellFeeUnsupported"
    by (simp add: parseGetSwapQuoteRequestParams_def)
next
  assume "parsedSellFee env req = Finite 0 \<and> gt_num (parsedBuyFee env req) (Finite 1)"
  with schema slippage
  show "parseGetSwapQuoteRequestParams env req ep = Inl buyFeeOutOfRange"
    by (simp add: parseGetSwapQuoteRequestParams_def)
next
  fix p r
  assume "parsedSellFee env req = Finite 0 \<and> \<not> gt_num (parsedBuyFee env req) (Finite 1)"
    and "parseGetSwapQuoteRequestParams env req ep = Inr p
           \<and> query req ''feeRecipient'' = Some r \<and> r \<noteq> []"
  then show "affiliateFee p =
               \<lparr>recipient = r, sellTokenPercentageFee = Finite 0,
                buyTokenPercentageFee = parsedBuyFee env req\<rparr>"
    by (auto simp: parse_Inr_iff assembleRequest_def parsedAffiliateFee_def)
next
  fix p
  assume "parseGetSwapQuoteRequestParams env req ep = Inr p
            \<and> \<not> truthy_str (query req ''feeRecipient'')"
  then show "affiliateFee p = zeroAffiliateFee"
    by (cases "query req ''feeRecipient''")
       (auto simp: parse_Inr_iff assembleRequest_def parsedAffiliateFee_def)
next
  assume a: "parsedSellFee env req = Finite 0 \<and> \<not> gt_num (parsedBuyFee env req) (Finite 1)"
    and "\<exists>x. parsedSources env req ep = Inr x"
  then obtain ex inc n where "parsedSources env req ep = Inr (ex, inc, n)"
    by (metis prod_cases3)
  with a schema slippage
  show "\<exists>p. parseGetSwapQuoteRequestParams env req ep = Inr p"
    by (auto simp: parse_Inr_iff)
qed

text \<open>
  The theorem at the sample deployment: a sell fee of 0.5, a buy fee of 2 without a
  recipient, and a buy fee of 0.5 with a recipient.
\<close>

theorem affiliate_fee_checks_unconditional_witness:
  "parseGetSwapQuoteRequestParams sampleEnv
       (mkRequest ((''feeRecipient'', ''0xfee1'') # (''sellTokenPercentageFee'', ''0.5'') # daiForUsdc) [])
       Quote = Inl sellFeeUnsupported
   \<and> parseGetSwapQuoteRequestParams sampleEnv
       (mkRequest ((''buyTokenPercentageFee'', ''2'') # daiForUsdc) [])
       Quote = Inl buyFeeOutOfRange
   \<and> map_sum id affiliateFee
       (parseGetSwapQuoteRequestParams sampleEnv
          (mkRequest ((''feeRecipient'', ''0xfee1'') # (''buyTokenPercentageFee'', ''0.5'') # daiForUsdc) [])
          Quote)
      = Inr \<lparr>recipient = ''0xfee1'', sellTokenPercentageFee = Finite 0,
             buyTokenPercentageFee = Finite (1 / 2)\<rparr>"
proof -
  let ?a = "mkRequest ((''feeRecipient'', ''0xfee1'') # (''sellTokenPercentageFee'', ''0.5'') # daiForUsdc) []"
  let ?b = "mkRequest ((''buyTokenPercentageFee'', ''2'') # daiForUsdc) []"
  let ?c = "mkRequest ((''feeRecipient'', ''0xfee1'') # (''buyTokenPercentageFee'', ''0.5'') # daiForUsdc) []"
  have schema: "validateSchema sampleEnv q = None" for q
    by (simp add: sampleEnv_def)
  have slip: "\<not> gt_num (parsedSlippage sampleEnv ?a) (Finite 1)"
    "\<not> gt_num (parsedSlippage sampleEnv ?b) (Finite 1)"
    "\<not> gt_num (parsedSlippage sampleEnv ?c) (Finite 1)"
    by (simp_all add: parser_defs sample_defs)
  have a: "gt_num (parsedSellFee sampleEnv ?a) (Finite 0)"
    by (simp add: parser_defs sample_defs)
  have b: "parsedSellFee sampleEnv ?b = Finite 0 \<and> gt_num (parsedBuyFee sampleEnv ?b) (Finite 1)"
    by (simp add: parser_defs sample_defs)
  have c: "parsedSellFee sampleEnv ?c = Finite 0 \<and> \<not> gt_num (parsedBuyFee sampleEnv ?c) (Finite 1)"
    and c_fee: "parsedBuyFee sampleEnv ?c = Finite (1 / 2)"
    and c_rcp: "query ?c ''feeRecipient'' = Some ''0xfee1''"
    and c_src': "parsedSources sampleEnv ?c Quote = Inr ([], [], False)"
    by (simp_all add: parser_defs sample_defs)
  from c_src' have c_src: "\<exists>x. parsedSources sampleEnv ?c Quote = Inr x" ..
  have 1: "parseGetSwapQuoteRequestParams sampleEnv ?a Quote = Inl sellFeeUnsupported"
    using affiliate_fee_checks_unconditional [OF schema slip(1), of Quote] a by blast
  have 2: "parseGetSwapQuoteRequestParams sampleEnv ?b Quote = Inl buyFeeOutOfRange"
    using affiliate_fee_checks_unconditional [OF schema slip(2), of Quote] b by blast
  from affiliate_fee_checks_unconditional [OF schema slip(3), of Quote] c c_src
  obtain p where p: "parseGetSwapQuoteRequestParams sampleEnv ?c Quote = Inr p"
    by blast
  with affiliate_fee_checks_unconditional [OF schema slip(3), of Quote] c c_rcp
  have "affiliateFee p = \<lparr>recipient = ''0xfee1'', sellTokenPercentageFee = Finite 0,
                          buyTokenPercentageFee = parsedBuyFee sampleEnv ?c\<rparr>"
    by blast
  with p c_fee have 3: "map_sum id affiliateFee (parseGetSwapQuoteRequestParams sampleEnv ?c Quote)
      = Inr \<lparr>recipient = ''0xfee1'', sellTokenPercentageFee = Finite 0,
             buyTokenPercentageFee = Finite (1 / 2)\<rparr>"
    by simp
  from 1 2 3 show ?thesis by blast
qed

text \<open>
  The claim as the specification words it makes the checks depend on a fee recipient and
  promises the zero-fee descriptor when there is none. A request without a fee recipient
  and with a sell fee of 0.5 is rejected all the same.
\<close>

theorem affiliate_fee_no_recipient_counterexample:
  "query (mkRequest ((''sellTokenPercentageFee'', ''0.5'') # daiForUsdc) []) ''feeRecipient'' = None
   \<and> parseGetSwapQuoteRequestParams sampleEnv
        (mkRequest ((''sellTokenPercentageFee'', ''0.5'') # daiForUsdc) []) Quote
      = Inl sellFeeUnsupported
   \<and> map_sum id affiliateFee
        (parseGetSwapQuoteRequestParams sampleEnv
           (mkRequest ((''sellTokenPercentageFee'', ''0.5'') # daiForUsdc) []) Quote)
      \<noteq> Inr zeroAffiliateFee"
  by (simp add: parser_defs sample_defs sellFeeUnsupported_def)


section \<open>Restricted-quote options\<close>

text \<open>
  On the sample deployment a query that extends the DAI-for-USDC query without touching
  the slippage, the fees and the excluded sources parses to the assembled request.
\<close>

lemma sample_parse_ok:
  "parseGetSwapQuoteRequestParams sampleEnv (mkRequest (qs @ daiForUsdc) hs) ep
     = Inr (assembleRequest sampleEnv (mkRequest (qs @ daiForUsdc) hs) ep [] [] False)"
  if "map_of qs ''slippagePercentage'' = None" "map_of qs ''sellTokenPercentageFee'' = None"
     "map_of qs ''buyTokenPercentageFee'' = None" "map_of qs ''excludedSources'' = None"
  using that
  by (simp add: parseGetSwapQuoteRequestParams_def parsedSlippage_def parsedSellFee_def
        parsedBuyFee_def parsedSources_def Number_parseFloat_def or_num_def
        DEFAULT_QUOTE_SLIPPAGE_PERCENTAGE_def sample_defs map_add_def)

text \<open>
  Claim C5. In every canonical request the parser returns, the \<open>rfqt\<close> options are
  determined by the endpoint, the API key, the taker address and the raw
  \<open>intentOnFilling\<close>; a key or an address is present when it is supplied and not empty.
  Without an API key the options are absent, whatever the endpoint and the taker address.
  On the quote endpoint with an API key and a taker address, \<open>intentOnFilling\<close> tells
  whether the raw parameter is the text \<open>true\<close>, and \<open>isIndicative\<close> is false. On the
  price endpoint with an API key, \<open>intentOnFilling\<close> is false and \<open>isIndicative\<close> is
  true, whatever the raw parameter. On the quote endpoint without a taker address the
  options are absent. Options that are present carry the exclusivity flag that the source
  parser returned.
\<close>

theorem rfqt_options:
  assumes ok: "parseGetSwapQuoteRequestParams env req ep = Inr p"
  shows "(\<not> truthy_str (header req ''0x-api-key'') \<longrightarrow> rfqt p = None)
    \<and> (ep = Quote \<and> truthy_str (header req ''0x-api-key'')
         \<and> truthy_str (query req ''takerAddress'') \<longrightarrow>
         map_option (\<lambda>r. (intentOnFilling r, isIndicative r)) (rfqt p)
           = Some (query req ''intentOnFilling'' = Some ''true'', False))
    \<and> (ep = Price \<and> truthy_str (header req ''0x-api-key'') \<longrightarrow>
         map_option (\<lambda>r. (intentOnFilling r, isIndicative r)) (rfqt p) = Some (False, True))
    \<and> (ep = Quote \<and> \<not> truthy_str (query req ''takerAddress'') \<longrightarrow> rfqt p = None)
    \<and> (\<forall>r. rfqt p = Some r \<longrightarrow>
         (\<exists>ex inc. parsedSources env req ep = Inr (ex, inc, nativeExclusivelyRFQT r)))
    \<and> apiKey p = header req ''0x-api-key''
    \<and> takerAddress p = query req ''takerAddress''"
proof -
  from ok obtain ex inc n where src: "parsedSources env req ep = Inr (ex, inc, n)"
    and p: "p = assembleRequest env req ep ex inc n"
    by (auto simp: parse_Inr_iff)
  have r: "rfqt p = parsedRfqt req ep n"
    and k: "apiKey p = header req ''0x-api-key''"
    and t: "takerAddress p = query req ''takerAddress''"
    by (simp_all add: p assembleRequest_def)
  show ?thesis
    using src by (cases ep) (auto simp: r k t parsedRfqt_def split: if_splits)
qed

text \<open>
  The theorem at the sample deployment: a request with a key and a taker address on both
  endpoints, and the same request without the key.
\<close>

theorem rfqt_options_witness:
  "truthy_str (header (mkRequest ([(''takerAddress'', ''0x7a6e''), (''intentOnFilling'', ''true'')]
                                   @ daiForUsdc) [(''0x-api-key'', ''rfqt-key'')]) ''0x-api-key'')
   \<and> truthy_str (query (mkRequest ([(''takerAddress'', ''0x7a6e''), (''intentOnFilling'', ''true'')]
                                   @ daiForUsdc) [(''0x-api-key'', ''rfqt-key'')]) ''takerAddress'')
   \<and> map_sum id (\<lambda>p. map_option (\<lambda>r. (intentOnFilling r, isIndicative r)) (rfqt p))
       (parseGetSwapQuoteRequestParams sampleEnv
          (mkRequest ([(''takerAddress'', ''0x7a6e''), (''intentOnFilling'', ''true'')] @ daiForUsdc)
                     [(''0x-api-key'', ''rfqt-key'')]) Quote)
     = Inr (Some (True, False))
   \<and> map_sum id (\<lambda>p. map_option (\<lambda>r. (intentOnFilling r, isIndicative r)) (rfqt p))
       (parseGetSwapQuoteRequestParams sampleEnv
          (mkRequest ([(''takerAddress'', ''0x7a6e''), (''intentOnFilling'', ''true'')] @ daiForUsdc)
                     [(''0x-api-key'', ''rfqt-key'')]) Price)
     = Inr (Some (False, True))
   \<and> map_sum id rfqt
       (parseGetSwapQuoteRequestParams sampleEnv
          (mkRequest ([(''takerAddress'', ''0x7a6e''), (''intentOnFilling'', ''true'')] @ daiForUsdc)
                     []) Quote)
     = Inr None"
proof -
  let ?qs = "[(''takerAddress'', ''0x7a6e''), (''intentOnFilling'', ''true'')]"
  let ?k = "mkRequest (?qs @ daiForUsdc) [(''0x-api-key'', ''rfqt-key'')]"
  let ?n = "mkRequest (?qs @ daiForUsdc) []"
  have key: "truthy_str (header ?k ''0x-api-key'')" "\<not> truthy_str (header ?n ''0x-api-key'')"
    and taker: "truthy_str (query ?k ''takerAddress'')"
    and intent: "query ?k ''intentOnFilling'' = Some ''true''"
    by (simp_all add: mkRequest_def)
  have q: "parseGetSwapQuoteRequestParams sampleEnv ?k Quote
             = Inr (assembleRequest sampleEnv ?k Quote [] [] False)"
    by (rule sample_parse_ok) simp_all
  have pr: "parseGetSwapQuoteRequestParams sampleEnv ?k Price
             = Inr (assembleRequest sampleEnv ?k Price [] [] False)"
    by (rule sample_parse_ok) simp_all
  have nk: "parseGetSwapQuoteRequestParams sampleEnv ?n Quote
             = Inr (assembleRequest sampleEnv ?n Quote [] [] False)"
    by (rule sample_parse_ok) simp_all
  have 1: "map_option (\<lambda>r. (intentOnFilling r, isIndicative r))
             (rfqt (assembleRequest sampleEnv ?k Quote [] [] False)) = Some (True, False)"
    using rfqt_options [OF q] key(1) taker intent by simp
  have 2: "map_option (\<lambda>r. (intentOnFilling r, isIndicative r))
             (rfqt (assembleRequest sampleEnv ?k Price [] [] False)) = Some (False, True)"
    using rfqt_options [OF pr] key(1) by simp
  have 3: "rfqt (assembleRequest sampleEnv ?n Quote [] [] False) = None"
    using rfqt_options [OF nk] key(2) by blast
  from key(1) taker 1 2 3 show ?thesis
    by (simp only: q pr nk map_sum.simps id_apply)
qed



section \<open>Classification of swap-service failures\<close>

lemmas orchestration_defs =
  SwapHandlers_calculateSwapQuoteAsync_def buildCalculateSwapQuoteParams_def
  sellTokenAddress_def buyTokenAddress_def isWrap_def isUnwrap_def dispatchSwapQuote_def
  classifySwapQuoteError_def startsWith_def equalTokenError_def

lemmas sampleParams_defs =
  sampleParams_def assembleRequest_def mkRequest_def optionalBigNumber_def

lemma build_Inr_fields:
  "buildCalculateSwapQuoteParams env params = Inr (csp, u, w) \<Longrightarrow>
     u = isUnwrap env params \<and> w = isWrap env params
     \<and> cp_skipValidation csp = skipValidation params
     \<and> cp_buyAmount csp = buyAmount params"
  by (auto simp: buildCalculateSwapQuoteParams_def split: sum.splits if_splits)

text \<open>
  Claim C7. Let the swap service throw \<open>e\<close>, a value that is neither an API error nor a
  revert error and whose message starts with the insufficient-liquidity marker or with
  \<open>NO_OPTIMAL_PATH\<close>. Then the orchestration throws a validation error with one item:
  the field is \<open>buyAmount\<close> when the request has a buy amount and \<open>sellAmount\<close>
  otherwise, the code is value-out-of-range and the reason is the insufficient-liquidity
  marker.
\<close>

theorem insufficient_liquidity_classified:
  assumes built: "buildCalculateSwapQuoteParams env params = Inr (csp, u, w)"
    and thrown: "dispatchSwapQuote env u w csp = Inl e"
    and not_api: "\<not> isAPIError e"
    and not_revert: "\<not> isRevertError e"
    and marker: "startsWith (message e) (InsufficientAssetLiquidity env)
                 \<or> startsWith (message e) ''NO_OPTIMAL_PATH''"
  shows "SwapHandlers_calculateSwapQuoteAsync env params =
           Inl (ValidationError
                  [\<lparr>field = (if buyAmount params \<noteq> None then ''buyAmount'' else ''sellAmount''),
                    code = ValueOutOfRange,
                    reason = ReasonText (InsufficientAssetLiquidity env)\<rparr>])"
  using assms
  by (simp add: SwapHandlers_calculateSwapQuoteAsync_def classifySwapQuoteError_def Let_def)

text \<open>
  The theorem at the deployment without liquidity, for a request with a sell amount and for
  one with a buy amount.
\<close>

theorem insufficient_liquidity_classified_witness:
  "SwapHandlers_calculateSwapQuoteAsync illiquidEnv
      (sampleParams [(''sellToken'', ''DAI''), (''buyToken'', ''USDC''), (''sellAmount'', ''1000'')])
     = Inl (ValidationError
              [\<lparr>field = ''sellAmount'', code = ValueOutOfRange,
                reason = ReasonText ''INSUFFICIENT_ASSET_LIQUIDITY''\<rparr>])
   \<and> SwapHandlers_calculateSwapQuoteAsync illiquidEnv
      (sampleParams [(''sellToken'', ''DAI''), (''buyToken'', ''USDC''), (''buyAmount'', ''1000'')])
     = Inl (ValidationError
              [\<lparr>field = ''buyAmount'', code = ValueOutOfRange,
                reason = ReasonText ''INSUFFICIENT_ASSET_LIQUIDITY''\<rparr>])"
proof -
  let ?s = "sampleParams [(''sellToken'', ''DAI''), (''buyToken'', ''USDC''), (''sellAmount'', ''1000'')]"
  let ?b = "sampleParams [(''sellToken'', ''DAI''), (''buyToken'', ''USDC''), (''buyAmount'', ''1000'')]"
  let ?e = "\<lparr>isAPIError = False, isRevertError = False,
             message = ''INSUFFICIENT_ASSET_LIQUIDITY: no route''\<rparr>"
  have amounts: "buyAmount ?s = None" "buyAmount ?b \<noteq> None"
    by (simp_all add: sampleParams_defs)
  have liq: "InsufficientAssetLiquidity illiquidEnv = ''INSUFFICIENT_ASSET_LIQUIDITY''"
    by (simp add: illiquidEnv_def sampleEnv_def)
  have e: "\<not> isAPIError ?e" "\<not> isRevertError ?e"
    "startsWith (message ?e) (InsufficientAssetLiquidity illiquidEnv)
     \<or> startsWith (message ?e) ''NO_OPTIMAL_PATH''"
    by (simp_all add: liq startsWith_def)
  obtain cs where bs: "buildCalculateSwapQuoteParams illiquidEnv ?s = Inr (cs, False, False)"
    by (simp add: buildCalculateSwapQuoteParams_def sellTokenAddress_def buyTokenAddress_def
          isWrap_def isUnwrap_def illiquidEnv_def sample_defs sampleParams_defs)
  obtain cb where bb: "buildCalculateSwapQuoteParams illiquidEnv ?b = Inr (cb, False, False)"
    by (simp add: buildCalculateSwapQuoteParams_def sellTokenAddress_def buyTokenAddress_def
          isWrap_def isUnwrap_def illiquidEnv_def sample_defs sampleParams_defs)
  have d: "dispatchSwapQuote illiquidEnv False False c = Inl ?e" for c
    by (simp add: dispatchSwapQuote_def illiquidEnv_def)
  from insufficient_liquidity_classified [OF bs d e] insufficient_liquidity_classified [OF bb d e]
  show ?thesis by (simp add: amounts liq)
qed


section \<open>The equal-token check\<close>

text \<open>The \<open>catch\<close> block never produces the equal-token error.\<close>

lemma classify_ne_equalTokenError: "classifySwapQuoteError env b e \<noteq> equalTokenError"
  by (simp add: classifySwapQuoteError_def equalTokenError_def Let_def)

text \<open>
  Claim C4. The orchestration throws the equal-token validation error, which cites
  \<open>buyToken\<close> and \<open>sellToken\<close> with the required-field code, exactly when both tokens
  resolve, the resolved addresses are equal and the pair is neither a wrap nor an unwrap.
  For a wrap or an unwrap the error is never thrown, whatever the resolved addresses are.
  An error that a collaborator throws is passed on as that collaborator's value and is not
  the orchestration's own error.
\<close>

theorem equal_token_check_iff:
  "((SwapHandlers_calculateSwapQuoteAsync env params = Inl equalTokenError) \<longleftrightarrow>
      (\<exists>a. sellTokenAddress env params = Inr a \<and> buyTokenAddress env params = Inr a)
      \<and> \<not> isUnwrap env params \<and> \<not> isWrap env params)
   \<and> (isWrap env params \<or> isUnwrap env params \<longrightarrow>
        SwapHandlers_calculateSwapQuoteAsync env params \<noteq> Inl equalTokenError)
   \<and> equalTokenError =
       ValidationError
         [\<lparr>field = ''buyToken'', code = RequiredField,
           reason = ReasonText ''buyToken and sellToken must be different''\<rparr>,
          \<lparr>field = ''sellToken'', code = RequiredField,
           reason = ReasonText ''buyToken and sellToken must be different''\<rparr>]"
proof -
  have iff: "(SwapHandlers_calculateSwapQuoteAsync env params = Inl equalTokenError) \<longleftrightarrow>
      (\<exists>a. sellTokenAddress env params = Inr a \<and> buyTokenAddress env params = Inr a)
      \<and> \<not> isUnwrap env params \<and> \<not> isWrap env params"
  proof (cases "sellTokenAddress env params")
    case (Inl e)
    then show ?thesis
      by (simp add: SwapHandlers_calculateSwapQuoteAsync_def buildCalculateSwapQuoteParams_def
            equalTokenError_def)
  next
    case sa: (Inr sa)
    show ?thesis
    proof (cases "buyTokenAddress env params")
      case (Inl e)
      with sa show ?thesis
        by (simp add: SwapHandlers_calculateSwapQuoteAsync_def buildCalculateSwapQuoteParams_def
              equalTokenError_def)
    next
      case ba: (Inr ba)
      show ?thesis
      proof (cases "\<not> isUnwrap env params \<and> \<not> isWrap env params \<and> sa = ba")
        case True
        with sa ba show ?thesis
          by (simp add: SwapHandlers_calculateSwapQuoteAsync_def buildCalculateSwapQuoteParams_def)
      next
        case False
        with sa ba have "\<exists>csp. buildCalculateSwapQuoteParams env params
                           = Inr (csp, isUnwrap env params, isWrap env params)"
          by (auto simp: buildCalculateSwapQuoteParams_def)
        then obtain csp where "buildCalculateSwapQuoteParams env params
                           = Inr (csp, isUnwrap env params, isWrap env params)" ..
        then have "SwapHandlers_calculateSwapQuoteAsync env params \<noteq> Inl equalTokenError"
          using classify_ne_equalTokenError
          by (auto simp: SwapHandlers_calculateSwapQuoteAsync_def split: sum.splits)
        with False sa ba show ?thesis by auto
      qed
    qed
  qed
  have "equalTokenError =
       ValidationError
         [\<lparr>field = ''buyToken'', code = RequiredField,
           reason = ReasonText ''buyToken and sellToken must be different''\<rparr>,
          \<lparr>field = ''sellToken'', code = RequiredField,
           reason = ReasonText ''buyToken and sellToken must be different''\<rparr>]"
    by (simp add: equalTokenError_def)
  with iff show ?thesis by blast
qed

text \<open>
  The theorem at the sample deployment: selling the native asset for its wrapped form
  resolves both sides to one address and passes the check; selling DAI for DAI fails it.
\<close>

theorem equal_token_check_iff_witness:
  "isWrap sampleEnv
     (sampleParams [(''sellToken'', ''ETH''), (''buyToken'', ''WETH''), (''sellAmount'', ''1'')])
   \<and> sellTokenAddress sampleEnv
       (sampleParams [(''sellToken'', ''ETH''), (''buyToken'', ''WETH''), (''sellAmount'', ''1'')])
     = Inr ''0xc02a''
   \<and> buyTokenAddress sampleEnv
       (sampleParams [(''sellToken'', ''ETH''), (''buyToken'', ''WETH''), (''sellAmount'', ''1'')])
     = Inr ''0xc02a''
   \<and> SwapHandlers_calculateSwapQuoteAsync sampleEnv
       (sampleParams [(''sellToken'', ''ETH''), (''buyToken'', ''WETH''), (''sellAmount'', ''1'')])
     \<noteq> Inl equalTokenError
   \<and> SwapHandlers_calculateSwapQuoteAsync sampleEnv
       (sampleParams [(''sellToken'', ''DAI''), (''buyToken'', ''DAI''), (''sellAmount'', ''1'')])
     = Inl equalTokenError"
proof -
  let ?w = "sampleParams [(''sellToken'', ''ETH''), (''buyToken'', ''WETH''), (''sellAmount'', ''1'')]"
  let ?d = "sampleParams [(''sellToken'', ''DAI''), (''buyToken'', ''DAI''), (''sellAmount'', ''1'')]"
  have w: "isWrap sampleEnv ?w" "sellTokenAddress sampleEnv ?w = Inr ''0xc02a''"
    "buyTokenAddress sampleEnv ?w = Inr ''0xc02a''"
    by (simp_all add: isWrap_def sellTokenAddress_def buyTokenAddress_def sample_defs
          sampleParams_defs)
  have d: "\<not> isUnwrap sampleEnv ?d" "\<not> isWrap sampleEnv ?d"
    "sellTokenAddress sampleEnv ?d = Inr ''0x6b17''" "buyTokenAddress sampleEnv ?d = Inr ''0x6b17''"
    by (simp_all add: isWrap_def isUnwrap_def sellTokenAddress_def buyTokenAddress_def sample_defs
          sampleParams_defs)
  have 1: "SwapHandlers_calculateSwapQuoteAsync sampleEnv ?w \<noteq> Inl equalTokenError"
    using equal_token_check_iff [of sampleEnv ?w] w(1) by blast
  have 2: "SwapHandlers_calculateSwapQuoteAsync sampleEnv ?d = Inl equalTokenError"
    using equal_token_check_iff [of sampleEnv ?d] d by blast
  from w 1 2 show ?thesis by blast
qed


section \<open>The response bodies of the quote and price handlers\<close>

text \<open>
  The quote handler sends the quote without \<open>quoteReport\<close> and \<open>decodedUniqueId\<close>.
  The price handler sends the quote of the swap service as it is.
\<close>

lemma getSwapQuoteAsync_omits_internal_fields:
  assumes "getSwapQuoteAsync env req = Inr resp"
  shows "\<exists>b. body resp = Some b \<and> b ''quoteReport'' = None \<and> b ''decodedUniqueId'' = None"
  using assms
  by (auto simp: getSwapQuoteAsync_def Let_def lodash_omit_def split: sum.splits if_splits)

lemma getSwapPriceAsync_sends_the_quote:
  assumes "getSwapPriceAsync env req = Inr resp"
  shows "\<exists>params quote.
           parseGetSwapQuoteRequestParams env req Price = Inr params
           \<and> SwapHandlers_calculateSwapQuoteAsync env (params\<lparr>skipValidation := True\<rparr>) = Inr quote
           \<and> resp = \<lparr>status = HttpStatus_OK, body = Some quote\<rparr>"
  using assms
  by (auto simp: getSwapPriceAsync_def Let_def split: sum.splits)

text \<open>
  Claim C1 asks that the body of every successful quote or price response omits
  \<open>quoteReport\<close> and \<open>decodedUniqueId\<close>. On the price endpoint the code builds the
  picked \<open>response\<close> and then sends \<open>quote\<close>: at the sample deployment, whose swap
  service returns a quote with both fields, the body of the price response is that quote,
  with both fields in it.
\<close>

theorem getSwapPriceAsync_sends_internal_fields:
  "getSwapPriceAsync sampleEnv (mkRequest daiForUsdc [])
     = Inr \<lparr>status = HttpStatus_OK, body = Some sampleQuote\<rparr>
   \<and> sampleQuote ''quoteReport'' = Some (JObject [(''sourcesConsidered'', JArray [])])
   \<and> sampleQuote ''decodedUniqueId'' = Some (JString ''a1b2c3-1599'')"
  by (simp add: getSwapPriceAsync_def makerAddresses_def Let_def parser_defs sample_defs
        orchestration_defs sampleQuote_def)


section \<open>Validation skipping on the price endpoint\<close>

text \<open>
  The token resolution does not read \<open>skipValidation\<close>: overriding the flag in the
  request changes the flag of the service argument and nothing else.
\<close>

lemma build_skipValidation_override:
  "buildCalculateSwapQuoteParams env (p\<lparr>skipValidation := True\<rparr>) =
     (case buildCalculateSwapQuoteParams env p of
        Inl err \<Rightarrow> Inl err
      | Inr (csp, u, w) \<Rightarrow> Inr (csp\<lparr>cp_skipValidation := True\<rparr>, u, w))"
proof -
  have r: "sellTokenAddress env (p\<lparr>skipValidation := True\<rparr>) = sellTokenAddress env p"
    "buyTokenAddress env (p\<lparr>skipValidation := True\<rparr>) = buyTokenAddress env p"
    "isWrap env (p\<lparr>skipValidation := True\<rparr>) = isWrap env p"
    "isUnwrap env (p\<lparr>skipValidation := True\<rparr>) = isUnwrap env p"
    by (simp_all add: sellTokenAddress_def buyTokenAddress_def isWrap_def isUnwrap_def)
  show ?thesis
    by (simp add: buildCalculateSwapQuoteParams_def r split: sum.splits)
qed

lemma parsed_skipValidation:
  assumes "parseGetSwapQuoteRequestParams env req ep = Inr p"
  shows "skipValidation p = (query req ''skipValidation'' = Some ''true'')"
  using assms
  by (auto simp: parse_Inr_iff assembleRequest_def parsedSkipValidation_def split: if_splits)

text \<open>
  Claim C9. The price handler answers with the parser's error when the parser fails and
  with the error of the token resolution when that fails, without calling the swap
  service. Otherwise let \<open>csp\<close> be the service argument built from the parsed request;
  its \<open>skipValidation\<close> flag tells whether the caller's parameter is the text
  \<open>true\<close>. The price handler calls the service with \<open>csp\<close> in which the flag is set,
  whatever the caller's parameter is, and answers from the result of that call: the
  classified error, or OK with the quote. The quote handler calls the service with
  \<open>csp\<close> itself, so there the caller's parameter reaches the service, and answers from
  the result of that call: the classified error, or OK with the stripped quote.
\<close>

theorem price_always_skips_validation:
  "(\<forall>err. parseGetSwapQuoteRequestParams env req Price = Inl err \<longrightarrow>
           getSwapPriceAsync env req = Inl err)
   \<and> (\<forall>p err.
         parseGetSwapQuoteRequestParams env req Price = Inr p
         \<and> buildCalculateSwapQuoteParams env p = Inl err \<longrightarrow>
         getSwapPriceAsync env req = Inl err)
   \<and> (\<forall>p csp u w.
         parseGetSwapQuoteRequestParams env req Price = Inr p
         \<and> buildCalculateSwapQuoteParams env p = Inr (csp, u, w) \<longrightarrow>
         cp_skipValidation csp = (query req ''skipValidation'' = Some ''true'')
         \<and> getSwapPriceAsync env req =
             (case dispatchSwapQuote env u w (csp\<lparr>cp_skipValidation := True\<rparr>) of
                Inl e \<Rightarrow> Inl (classifySwapQuoteError env (buyAmount p) e)
              | Inr quote \<Rightarrow>
                  (case makerAddresses quote of
                     Inl err \<Rightarrow> Inl err
                   | Inr makers \<Rightarrow> Inr \<lparr>status = HttpStatus_OK, body = Some quote\<rparr>)))
   \<and> (\<forall>p csp u w.
         parseGetSwapQuoteRequestParams env req Quote = Inr p
         \<and> buildCalculateSwapQuoteParams env p = Inr (csp, u, w) \<longrightarrow>
         cp_skipValidation csp = (query req ''skipValidation'' = Some ''true'')
         \<and> getSwapQuoteAsync env req =
             (case dispatchSwapQuote env u w csp of
                Inl e \<Rightarrow> Inl (classifySwapQuoteError env (buyAmount p) e)
              | Inr quote \<Rightarrow>
                  (case (if rfqt p \<noteq> None then makerAddresses quote else Inr []) of
                     Inl err \<Rightarrow> Inl err
                   | Inr makers \<Rightarrow>
                       Inr \<lparr>status = HttpStatus_OK,
                            body = Some
                              (if includePriceComparisons p \<and> truthy_prop (quote ''quoteReport'')
                               then (lodash_omit quote [''quoteReport'', ''decodedUniqueId''])
                                      (''priceComparisons'' :=
                                         map_option (\<lambda>scs. JArray (map (renameNative env) scs))
                                           (getPriceComparisonFromQuote env (CHAIN_ID env)
                                              (if sellAmount p \<noteq> None then Sell else Buy) quote))
                               else lodash_omit quote [''quoteReport'', ''decodedUniqueId''])\<rparr>)))"
proof (intro conjI allI impI)
  fix err
  assume "parseGetSwapQuoteRequestParams env req Price = Inl err"
  then show "getSwapPriceAsync env req = Inl err"
    by (simp add: getSwapPriceAsync_def)
next
  fix p err
  assume "parseGetSwapQuoteRequestParams env req Price = Inr p
            \<and> buildCalculateSwapQuoteParams env p = Inl err"
  then show "getSwapPriceAsync env req = Inl err"
    by (simp add: getSwapPriceAsync_def SwapHandlers_calculateSwapQuoteAsync_def
          build_skipValidation_override)
next
  fix p csp u w
  assume a: "parseGetSwapQuoteRequestParams env req Price = Inr p
               \<and> buildCalculateSwapQuoteParams env p = Inr (csp, u, w)"
  then have "cp_skipValidation csp = skipValidation p"
    using build_Inr_fields by blast
  with a show "cp_skipValidation csp = (query req ''skipValidation'' = Some ''true'')"
    using parsed_skipValidation by blast
  from a show "getSwapPriceAsync env req =
             (case dispatchSwapQuote env u w (csp\<lparr>cp_skipValidation := True\<rparr>) of
                Inl e \<Rightarrow> Inl (classifySwapQuoteError env (buyAmount p) e)
              | Inr quote \<Rightarrow>
                  (case makerAddresses quote of
                     Inl err \<Rightarrow> Inl err
                   | Inr makers \<Rightarrow> Inr \<lparr>status = HttpStatus_OK, body = Some quote\<rparr>))"
    by (simp add: getSwapPriceAsync_def SwapHandlers_calculateSwapQuoteAsync_def
          build_skipValidation_override Let_def split: sum.splits)
next
  fix p csp u w
  assume a: "parseGetSwapQuoteRequestParams env req Quote = Inr p
               \<and> buildCalculateSwapQuoteParams env p = Inr (csp, u, w)"
  then have "cp_skipValidation csp = skipValidation p"
    using build_Inr_fields by blast
  with a show "cp_skipValidation csp = (query req ''skipValidation'' = Some ''true'')"
    using parsed_skipValidation by blast
  from a show "getSwapQuoteAsync env req =
             (case dispatchSwapQuote env u w csp of
                Inl e \<Rightarrow> Inl (classifySwapQuoteError env (buyAmount p) e)
              | Inr quote \<Rightarrow>
                  (case (if rfqt p \<noteq> None then makerAddresses quote else Inr []) of
                     Inl err \<Rightarrow> Inl err
                   | Inr makers \<Rightarrow>
                       Inr \<lparr>status = HttpStatus_OK,
                            body = Some
                              (if includePriceComparisons p \<and> truthy_prop (quote ''quoteReport'')
                               then (lodash_omit quote [''quoteReport'', ''decodedUniqueId''])
                                      (''priceComparisons'' :=
                                         map_option (\<lambda>scs. JArray (map (renameNative env) scs))
                                           (getPriceComparisonFromQuote env (CHAIN_ID env)
                                              (if sellAmount p \<noteq> None then Sell else Buy) quote))
                               else lodash_omit quote [''quoteReport'', ''decodedUniqueId''])\<rparr>))"
    by (auto simp: getSwapQuoteAsync_def SwapHandlers_calculateSwapQuoteAsync_def Let_def
          split: sum.splits)
qed

text \<open>
  The theorem at the deployment whose service reports the flag it was called with, for a
  caller who sends \<open>skipValidation=false\<close>: the quote in the price response was computed
  with the flag set, and the one in the quote response with the flag unset.
\<close>

theorem price_always_skips_validation_witness:
  "query (mkRequest ((''skipValidation'', ''false'') # daiForUsdc) []) ''skipValidation''
     = Some ''false''
   \<and> map_sum id (\<lambda>r. map_option (\<lambda>b. b ''skippedValidation'') (body r))
       (getSwapPriceAsync echoEnv (mkRequest ((''skipValidation'', ''false'') # daiForUsdc) []))
     = Inr (Some (Some (JBool True)))
   \<and> map_sum id (\<lambda>r. map_option (\<lambda>b. b ''skippedValidation'') (body r))
       (getSwapQuoteAsync echoEnv (mkRequest ((''skipValidation'', ''false'') # daiForUsdc) []))
     = Inr (Some (Some (JBool False)))"
proof -
  let ?r = "mkRequest ((''skipValidation'', ''false'') # daiForUsdc) []"
  let ?p = "assembleRequest echoEnv ?r Price [] [] False"
  let ?q = "assembleRequest echoEnv ?r Quote [] [] False"
  have raw: "query ?r ''skipValidation'' = Some ''false''"
    by (simp add: mkRequest_def)
  have pp: "parseGetSwapQuoteRequestParams echoEnv ?r Price = Inr ?p"
    by (simp add: parseGetSwapQuoteRequestParams_def parsedSlippage_def parsedSellFee_def
          parsedBuyFee_def parsedSources_def Number_parseFloat_def or_num_def
          DEFAULT_QUOTE_SLIPPAGE_PERCENTAGE_def echoEnv_def sample_defs)
  have pq: "parseGetSwapQuoteRequestParams echoEnv ?r Quote = Inr ?q"
    by (simp add: parseGetSwapQuoteRequestParams_def parsedSlippage_def parsedSellFee_def
          parsedBuyFee_def parsedSources_def Number_parseFloat_def or_num_def
          DEFAULT_QUOTE_SLIPPAGE_PERCENTAGE_def echoEnv_def sample_defs)
  obtain cp where bp: "buildCalculateSwapQuoteParams echoEnv ?p = Inr (cp, False, False)"
    by (simp add: buildCalculateSwapQuoteParams_def sellTokenAddress_def buyTokenAddress_def
          isWrap_def isUnwrap_def echoEnv_def sample_defs assembleRequest_def)
  obtain cq where bq: "buildCalculateSwapQuoteParams echoEnv ?q = Inr (cq, False, False)"
    by (simp add: buildCalculateSwapQuoteParams_def sellTokenAddress_def buyTokenAddress_def
          isWrap_def isUnwrap_def echoEnv_def sample_defs assembleRequest_def)
  have d: "dispatchSwapQuote echoEnv False False c
             = Inr (sampleQuote(''skippedValidation'' \<mapsto> JBool (cp_skipValidation c)))" for c
    by (simp add: dispatchSwapQuote_def echoEnv_def)
  have m: "makerAddresses (sampleQuote(''skippedValidation'' \<mapsto> v))
             = Inr [Some (JString ''0x56ed'')]" for v
    by (simp add: makerAddresses_def sampleQuote_def)
  have opts: "rfqt ?q = None" "\<not> includePriceComparisons ?q"
    by (simp_all add: assembleRequest_def parsedRfqt_def mkRequest_def daiForUsdc_def)
  from price_always_skips_validation [of echoEnv ?r] pp bp
  have "getSwapPriceAsync echoEnv ?r =
          (case dispatchSwapQuote echoEnv False False (cp\<lparr>cp_skipValidation := True\<rparr>) of
             Inl e \<Rightarrow> Inl (classifySwapQuoteError echoEnv (buyAmount ?p) e)
           | Inr quote \<Rightarrow>
               (case makerAddresses quote of
                  Inl err \<Rightarrow> Inl err
                | Inr makers \<Rightarrow> Inr \<lparr>status = HttpStatus_OK, body = Some quote\<rparr>))"
    by blast
  then have 1: "map_sum id (\<lambda>r. map_option (\<lambda>b. b ''skippedValidation'') (body r))
                  (getSwapPriceAsync echoEnv ?r) = Inr (Some (Some (JBool True)))"
    by (simp add: d m)
  from price_always_skips_validation [of echoEnv ?r] pq bq
  have f: "cp_skipValidation cq = (query ?r ''skipValidation'' = Some ''true'')"
    and "getSwapQuoteAsync echoEnv ?r =
          (case dispatchSwapQuote echoEnv False False cq of
             Inl e \<Rightarrow> Inl (classifySwapQuoteError echoEnv (buyAmount ?q) e)
           | Inr quote \<Rightarrow>
               (case (if rfqt ?q \<noteq> None then makerAddresses quote else Inr []) of
                  Inl err \<Rightarrow> Inl err
                | Inr makers \<Rightarrow>
                    Inr \<lparr>status = HttpStatus_OK,
                         body = Some
                           (if includePriceComparisons ?q \<and> truthy_prop (quote ''quoteReport'')
                            then (lodash_omit quote [''quoteReport'', ''decodedUniqueId''])
                                   (''priceComparisons'' :=
                                      map_option (\<lambda>scs. JArray (map (renameNative echoEnv) scs))
                                        (getPriceComparisonFromQuote echoEnv (CHAIN_ID echoEnv)
                                           (if sellAmount ?q \<noteq> None then Sell else Buy) quote))
                            else lodash_omit quote [''quoteReport'', ''decodedUniqueId''])\<rparr>))"
    by blast+
  moreover from f raw have "\<not> cp_skipValidation cq" by simp
  ultimately have 2: "map_sum id (\<lambda>r. map_option (\<lambda>b. b ''skippedValidation'') (body r))
                  (getSwapQuoteAsync echoEnv ?r) = Inr (Some (Some (JBool False)))"
    by (simp add: d opts lodash_omit_def)
  from raw 1 2 show ?thesis by blast
qed


section \<open>Access to the registry listing\<close>

text \<open>What \<open>BEARER_REGEX\<close> accepts, and the token it captures.\<close>

lemma match_BEARER_REGEX_Some_iff:
  "match_BEARER_REGEX s = Some tok \<longleftrightarrow>
     (\<exists>w. s = ''Bearer'' @ w # tok \<and> is_whitespace w \<and> length tok = 36
          \<and> list_all (\<lambda>c. \<not> is_line_terminator c) tok)"
proof
  assume m: "match_BEARER_REGEX s = Some tok"
  then have len: "length s = 43" and pre: "take 6 s = ''Bearer''" and ws: "is_whitespace (s ! 6)"
    and lt: "list_all (\<lambda>c. \<not> is_line_terminator c) (drop 7 s)" and tok: "tok = drop 7 s"
    by (auto simp: match_BEARER_REGEX_def split: if_splits)
  from len have "s = take 6 s @ s ! 6 # drop (Suc 6) s"
    by (intro id_take_nth_drop) simp
  with pre tok have "s = ''Bearer'' @ s ! 6 # tok" by simp
  moreover from len tok have "length tok = 36" by simp
  ultimately show "\<exists>w. s = ''Bearer'' @ w # tok \<and> is_whitespace w \<and> length tok = 36
          \<and> list_all (\<lambda>c. \<not> is_line_terminator c) tok"
    using ws lt tok by blast
next
  assume "\<exists>w. s = ''Bearer'' @ w # tok \<and> is_whitespace w \<and> length tok = 36
          \<and> list_all (\<lambda>c. \<not> is_line_terminator c) tok"
  then show "match_BEARER_REGEX s = Some tok"
    by (auto simp: match_BEARER_REGEX_def)
qed

text \<open>
  Claim C6, as the code has it. The response is OK with the configured API-key whitelist
  exactly when the \<open>Authorization\<close> header is present and consists of the text
  \<open>Bearer\<close>, one whitespace character and a token of 36 characters, none of them a line
  terminator, that is a member of the configured passwords. In every other case (no header,
  another shape, a token that is not a member) the response is unauthorized and has no
  body. In every case the counter of one label grows by one and no other count changes;
  the label is the raw header value, or the sentinel \<open>N/A\<close> when the header is absent
  or empty.
\<close>

theorem registry_access:
  "getRfqRegistryAsync env req fetched =
     (if (\<exists>w tok. header req ''Authorization'' = Some (''Bearer'' @ w # tok)
                 \<and> is_whitespace w \<and> length tok = 36
                 \<and> list_all (\<lambda>c. \<not> is_line_terminator c) tok
                 \<and> tok \<in> set (RFQT_REGISTRY_PASSWORDS env))
      then \<lparr>status = HttpStatus_OK, body = Some (RFQT_API_KEY_WHITELIST env)\<rparr>
      else \<lparr>status = HttpStatus_UNAUTHORIZED, body = None\<rparr>,
      fetched(or_str (header req ''Authorization'') ''N/A''
                := fetched (or_str (header req ''Authorization'') ''N/A'') + 1))"
proof (cases "header req ''Authorization''")
  case None
  then show ?thesis
    by (simp add: getRfqRegistryAsync_def unauthorized_def counter_inc_def)
next
  case (Some a)
  show ?thesis
  proof (cases "match_BEARER_REGEX a")
    case None
    then have "\<not> (\<exists>w tok. a = ''Bearer'' @ w # tok
                 \<and> is_whitespace w \<and> length tok = 36
                 \<and> list_all (\<lambda>c. \<not> is_line_terminator c) tok
                 \<and> tok \<in> set (RFQT_REGISTRY_PASSWORDS env))"
      using match_BEARER_REGEX_Some_iff [of a] by auto
    with Some None show ?thesis
      by (simp add: getRfqRegistryAsync_def unauthorized_def counter_inc_def Let_def)
  next
    case tok: (Some tok)
    then obtain w where a: "a = ''Bearer'' @ w # tok" and w: "is_whitespace w"
      and l: "length tok = 36" and t: "list_all (\<lambda>c. \<not> is_line_terminator c) tok"
      using match_BEARER_REGEX_Some_iff [of a tok] by auto
    have "(\<exists>w' tok'. a = ''Bearer'' @ w' # tok'
                 \<and> is_whitespace w' \<and> length tok' = 36
                 \<and> list_all (\<lambda>c. \<not> is_line_terminator c) tok'
                 \<and> tok' \<in> set (RFQT_REGISTRY_PASSWORDS env))
          \<longleftrightarrow> tok \<in> set (RFQT_REGISTRY_PASSWORDS env)"
      using a w l t by auto
    with Some tok show ?thesis
      by (simp add: getRfqRegistryAsync_def unauthorized_def counter_inc_def Let_def
            REGISTRY_SET_def)
  qed
qed

lemma samplePassword_ok:
  "length samplePassword = 36" "list_all (\<lambda>c. \<not> is_line_terminator c) samplePassword"
  "samplePassword \<in> set (RFQT_REGISTRY_PASSWORDS sampleEnv)"
  "RFQT_API_KEY_WHITELIST sampleEnv = [''rfqt-key'']"
  by (simp_all add: samplePassword_def is_line_terminator_def sampleEnv_def)

text \<open>
  The theorem at the sample deployment, with all counts at zero before the request: a
  header with a registered password, and no header.
\<close>

theorem registry_access_witness:
  "getRfqRegistryAsync sampleEnv
      (mkRequest [] [(''Authorization'', ''Bearer '' @ samplePassword)]) (\<lambda>l. 0)
     = (\<lparr>status = HttpStatus_OK, body = Some [''rfqt-key'']\<rparr>,
        (\<lambda>l. 0)(''Bearer '' @ samplePassword := 1))
   \<and> getRfqRegistryAsync sampleEnv (mkRequest [] []) (\<lambda>l. 0)
     = (\<lparr>status = HttpStatus_UNAUTHORIZED, body = None\<rparr>, (\<lambda>l. 0)(''N/A'' := 1))"
proof -
  let ?h = "''Bearer '' @ samplePassword"
  have h: "header (mkRequest [] [(''Authorization'', ?h)]) ''Authorization''
             = Some (''Bearer'' @ CHR '' '' # samplePassword)"
    by (simp add: mkRequest_def)
  have ws: "is_whitespace CHR '' ''" by (simp add: is_whitespace_def)
  have ex: "\<exists>w tok. header (mkRequest [] [(''Authorization'', ?h)]) ''Authorization''
                      = Some (''Bearer'' @ w # tok)
                 \<and> is_whitespace w \<and> length tok = 36
                 \<and> list_all (\<lambda>c. \<not> is_line_terminator c) tok
                 \<and> tok \<in> set (RFQT_REGISTRY_PASSWORDS sampleEnv)"
    using h ws samplePassword_ok by blast
  have lbl: "or_str (Some (''Bearer'' @ CHR '' '' # samplePassword)) ''N/A'' = ?h"
    by simp
  have 1: "getRfqRegistryAsync sampleEnv (mkRequest [] [(''Authorization'', ?h)]) (\<lambda>l. 0)
     = (\<lparr>status = HttpStatus_OK, body = Some [''rfqt-key'']\<rparr>, (\<lambda>l. 0)(?h := 1))"
    using registry_access [of sampleEnv "mkRequest [] [(''Authorization'', ?h)]" "\<lambda>l. 0"] ex
    by (simp only: if_True h lbl samplePassword_ok) simp
  have n: "header (mkRequest [] []) ''Authorization'' = None"
    by (simp add: mkRequest_def)
  have 2: "getRfqRegistryAsync sampleEnv (mkRequest [] []) (\<lambda>l. 0)
     = (\<lparr>status = HttpStatus_UNAUTHORIZED, body = None\<rparr>, (\<lambda>l. 0)(''N/A'' := 1))"
    using registry_access [of sampleEnv "mkRequest [] []" "\<lambda>l. 0"]
    by (simp add: n)
  from 1 2 show ?thesis by blast
qed

text \<open>
  The claim as the specification words it rejects every header that is not \<open>Bearer\<close>, a
  space and a token of 36 characters. The expression accepts any whitespace character in
  the place of the space: a header with a tab (code 9) before a registered password does
  not have the specification's shape, and the response is OK with the whitelist.
\<close>

theorem registry_whitespace_counterexample:
  "bearer_space_pattern (''Bearer'' @ CHR 0x09 # samplePassword) = None
   \<and> fst (getRfqRegistryAsync sampleEnv
            (mkRequest [] [(''Authorization'', ''Bearer'' @ CHR 0x09 # samplePassword)]) (\<lambda>l. 0))
      = \<lparr>status = HttpStatus_OK, body = Some [''rfqt-key'']\<rparr>"
  by (simp add: bearer_space_pattern_def getRfqRegistryAsync_def match_BEARER_REGEX_def
        is_whitespace_def is_line_terminator_def REGISTRY_SET_def samplePassword_def
        sampleEnv_def mkRequest_def Let_def)


section \<open>The pair check of the market-depth handler\<close>

text \<open>
  When the two identifiers differ after the substitution, the handler fails only with a
  collaborator's error, or answers.
\<close>

lemma getMarketDepthAsync_unequal:
  assumes "marketDepthToken env (query req ''buyToken'')
             \<noteq> marketDepthToken env (query req ''sellToken'')"
  shows "(\<exists>e. getMarketDepthAsync env req = Inl (Rethrown e))
         \<or> (\<exists>r. getMarketDepthAsync env req = Inr r)"
  using assms
  by (simp add: getMarketDepthAsync_def Let_def split: sum.splits)

text \<open>
  Claim C10. The market-depth handler replaces a native-asset identifier by the text
  \<open>WETH\<close> and compares the two identifiers as strings. It fails with the validation
  error on the field \<open>buyToken\<close> with the invalid-address code, naming the pair, exactly
  when the identifiers are equal after the substitution. In particular a native asset on
  one side and the text \<open>WETH\<close> on the other fail as the pair WETH/WETH. The handler
  does not consult \<open>isWETHSymbolOrAddress\<close>, on which the wrap and unwrap carve-out of
  the quote and price endpoints rests: replacing that function changes nothing.
\<close>

theorem market_depth_equal_tokens:
  "((getMarketDepthAsync env req =
       Inl (ValidationError
              [\<lparr>field = ''buyToken'', code = InvalidAddress,
                reason = ReasonText
                  (''Invalid pair '' @ template_str (marketDepthToken env (query req ''sellToken''))
                   @ ''/'' @ template_str (marketDepthToken env (query req ''buyToken'')))\<rparr>]))
     \<longleftrightarrow> marketDepthToken env (query req ''buyToken'')
           = marketDepthToken env (query req ''sellToken''))
   \<and> (isETHSymbolOrAddress env (query req ''buyToken'')
        \<and> query req ''sellToken'' = Some ''WETH'' \<longrightarrow>
        getMarketDepthAsync env req =
          Inl (ValidationError
                 [\<lparr>field = ''buyToken'', code = InvalidAddress,
                   reason = ReasonText ''Invalid pair WETH/WETH''\<rparr>]))
   \<and> (isETHSymbolOrAddress env (query req ''sellToken'')
        \<and> query req ''buyToken'' = Some ''WETH'' \<longrightarrow>
        getMarketDepthAsync env req =
          Inl (ValidationError
                 [\<lparr>field = ''buyToken'', code = InvalidAddress,
                   reason = ReasonText ''Invalid pair WETH/WETH''\<rparr>]))
   \<and> getMarketDepthAsync (env\<lparr>isWETHSymbolOrAddress := f\<rparr>) req = getMarketDepthAsync env req"
proof (intro conjI impI)
  show "(getMarketDepthAsync env req =
       Inl (ValidationError
              [\<lparr>field = ''buyToken'', code = InvalidAddress,
                reason = ReasonText
                  (''Invalid pair '' @ template_str (marketDepthToken env (query req ''sellToken''))
                   @ ''/'' @ template_str (marketDepthToken env (query req ''buyToken'')))\<rparr>]))
     \<longleftrightarrow> marketDepthToken env (query req ''buyToken'')
           = marketDepthToken env (query req ''sellToken'')"
  proof (cases "marketDepthToken env (query req ''buyToken'')
                  = marketDepthToken env (query req ''sellToken'')")
    case True
    then show ?thesis
      by (simp add: getMarketDepthAsync_def invalidPairError_def Let_def)
  next
    case False
    with getMarketDepthAsync_unequal [OF False] show ?thesis by auto
  qed
next
  assume "isETHSymbolOrAddress env (query req ''buyToken'')
            \<and> query req ''sellToken'' = Some ''WETH''"
  then have "marketDepthToken env (query req ''buyToken'') = Some ''WETH''"
    and "marketDepthToken env (query req ''sellToken'') = Some ''WETH''"
    by (simp_all add: marketDepthToken_def)
  then show "getMarketDepthAsync env req =
          Inl (ValidationError
                 [\<lparr>field = ''buyToken'', code = InvalidAddress,
                   reason = ReasonText ''Invalid pair WETH/WETH''\<rparr>])"
    by (simp add: getMarketDepthAsync_def invalidPairError_def Let_def)
next
  assume "isETHSymbolOrAddress env (query req ''sellToken'')
            \<and> query req ''buyToken'' = Some ''WETH''"
  then have "marketDepthToken env (query req ''buyToken'') = Some ''WETH''"
    and "marketDepthToken env (query req ''sellToken'') = Some ''WETH''"
    by (simp_all add: marketDepthToken_def)
  then show "getMarketDepthAsync env req =
          Inl (ValidationError
                 [\<lparr>field = ''buyToken'', code = InvalidAddress,
                   reason = ReasonText ''Invalid pair WETH/WETH''\<rparr>])"
    by (simp add: getMarketDepthAsync_def invalidPairError_def Let_def)
next
  have t: "marketDepthToken (env\<lparr>isWETHSymbolOrAddress := f\<rparr>) = marketDepthToken env"
    by (rule ext) (simp add: marketDepthToken_def)
  have s: "sourcesOfQuery (env\<lparr>isWETHSymbolOrAddress := f\<rparr>) = sourcesOfQuery env"
    by (rule ext) (simp add: sourcesOfQuery_def split: option.splits)
  show "getMarketDepthAsync (env\<lparr>isWETHSymbolOrAddress := f\<rparr>) req = getMarketDepthAsync env req"
    by (simp add: getMarketDepthAsync_def t s Let_def
          cong: sum.case_cong option.case_cong if_cong)
qed

text \<open>
  The theorem at the sample deployment: buying the native asset with its wrapped form.
\<close>

theorem market_depth_equal_tokens_witness:
  "isETHSymbolOrAddress sampleEnv
     (query (mkRequest [(''buyToken'', ''ETH''), (''sellToken'', ''WETH''), (''sellAmount'', ''1'')] [])
        ''buyToken'')
   \<and> query (mkRequest [(''buyToken'', ''ETH''), (''sellToken'', ''WETH''), (''sellAmount'', ''1'')] [])
        ''sellToken'' = Some ''WETH''
   \<and> getMarketDepthAsync sampleEnv
        (mkRequest [(''buyToken'', ''ETH''), (''sellToken'', ''WETH''), (''sellAmount'', ''1'')] [])
      = Inl (ValidationError
               [\<lparr>field = ''buyToken'', code = InvalidAddress,
                 reason = ReasonText ''Invalid pair WETH/WETH''\<rparr>])"
proof -
  let ?r = "mkRequest [(''buyToken'', ''ETH''), (''sellToken'', ''WETH''), (''sellAmount'', ''1'')] []"
  have h: "isETHSymbolOrAddress sampleEnv (query ?r ''buyToken'')
           \<and> query ?r ''sellToken'' = Some ''WETH''"
    by (simp add: sampleEnv_def mkRequest_def)
  with market_depth_equal_tokens [of sampleEnv ?r]
  have "getMarketDepthAsync sampleEnv ?r
      = Inl (ValidationError
               [\<lparr>field = ''buyToken'', code = InvalidAddress,
                 reason = ReasonText ''Invalid pair WETH/WETH''\<rparr>])"
    by blast
  with h show ?thesis by blast
qed

end
